theory Spec2Isabelle
  imports Main "HOL-Library.Sublist" "HOL-Library.Word"
begin

section \<open>JavaScript values\<close>

text \<open>
  The relay exists in three variants: \<^verbatim>\<open>src/index.js\<close> (Brevo, hand-written CORS
  middleware), \<^verbatim>\<open>src/unnamed/part_000\<close> (Brevo, the \<^verbatim>\<open>cors\<close> package with an origin
  callback, detailed logging) and \<^verbatim>\<open>src/unnamed/part_001\<close> (SendGrid, hand-written CORS
  middleware). Definitions prefixed \<open>idx_\<close>, \<open>p0_\<close> and \<open>p1_\<close> embed the code of the
  respective file; \<open>cors_middleware\<close> and \<open>validateApiKey\<close> are textually the same in
  \<^verbatim>\<open>index.js\<close> and \<^verbatim>\<open>part_001\<close> and are embedded once.

  A JavaScript value as \<^verbatim>\<open>bodyParser.json()\<close> and the provider SDKs produce it. A string
  is a list of code units below 256. A number is an integer \<open>n\<close> with
  \<open>- 2 ^ 53 \<le> n < 2 ^ 53\<close>, the range in which a double holds every integer exactly and
  JavaScript prints it in plain decimal digits; it is carried as a 54-bit word read as a
  signed value (fractions and larger magnitudes are not modelled, no operation of the
  handlers computes with numbers). An object is the list of its own properties in
  enumeration order, with distinct keys.
\<close>

type_synonym jsnum = "54 word"

datatype jsval =
    JUndefined
  | JNull
  | JBool bool
  | JNum jsnum
  | JStr string
  | JArr "jsval list"
  | JObj "(string \<times> jsval) list"

text \<open>\<^verbatim>\<open>!v\<close> is \<open>\<not> truthy v\<close>: undefined, null, false, 0 and the empty string are falsy,
  every array and every object (also an empty one) is truthy.\<close>

fun truthy :: "jsval \<Rightarrow> bool" where
  "truthy JUndefined = False"
| "truthy JNull = False"
| "truthy (JBool b) = b"
| "truthy (JNum n) = (n \<noteq> 0)"
| "truthy (JStr s) = (s \<noteq> [])"
| "truthy (JArr xs) = True"
| "truthy (JObj ps) = True"

text \<open>\<^verbatim>\<open>a || b\<close>\<close>

definition js_or :: "jsval \<Rightarrow> jsval \<Rightarrow> jsval" where
  "js_or a b = (if truthy a then a else b)"

text \<open>\<^verbatim>\<open>Array.isArray(v)\<close>, and the elements of an array.\<close>

fun isArray :: "jsval \<Rightarrow> bool" where
  "isArray (JArr xs) = True"
| "isArray v = False"

fun elements :: "jsval \<Rightarrow> jsval list" where
  "elements (JArr xs) = xs"
| "elements v = []"

text \<open>Reading a property: \<^verbatim>\<open>obj.k\<close> is undefined when the object has no such property.\<close>

definition field :: "(string \<times> jsval) list \<Rightarrow> string \<Rightarrow> jsval" where
  "field ps k = (case map_of ps k of None \<Rightarrow> JUndefined | Some v \<Rightarrow> v)"

fun js_get :: "jsval \<Rightarrow> string \<Rightarrow> jsval" where
  "js_get (JObj ps) k = field ps k"
| "js_get v k = JUndefined"

text \<open>A request header as a value: \<^verbatim>\<open>req.headers[name]\<close> is undefined or a string.\<close>

definition header :: "string option \<Rightarrow> jsval" where
  "header h = (case h of None \<Rightarrow> JUndefined | Some s \<Rightarrow> JStr s)"

text \<open>
  Whether converting a value to a string inside a template literal throws a TypeError.
  A parsed JSON object whose own property \<^verbatim>\<open>toString\<close> shadows the inherited method cannot
  be converted (no JSON value is callable); an array joins the conversions of its elements.
\<close>

fun to_string_throws :: "jsval \<Rightarrow> bool" where
  "to_string_throws (JArr xs) = list_ex to_string_throws xs"
| "to_string_throws (JObj ps) = (''toString'' \<in> fst ` set ps)"
| "to_string_throws v = False"

subsection \<open>Strings\<close>

text \<open>Decimal digits of a number, as \<^verbatim>\<open>String(n)\<close> prints an integer.\<close>

definition digit_char :: "nat \<Rightarrow> char" where
  "digit_char d = ''0123456789abcdef'' ! (d mod 16)"

function show_nat :: "nat \<Rightarrow> string" where
  "show_nat n = (if n < 10 then [digit_char n] else show_nat (n div 10) @ [digit_char (n mod 10)])"
  by pat_completeness auto
termination
  by (relation "measure id") auto

definition show_int :: "int \<Rightarrow> string" where
  "show_int i = (if i < 0 then CHR ''-'' # show_nat (nat (- i)) else show_nat (nat i))"

text \<open>\<^verbatim>\<open>String(n)\<close> for a number of the model.\<close>

definition show_num :: "jsnum \<Rightarrow> string" where
  "show_num n = show_int (sint n)"

text \<open>\<^verbatim>\<open>JSON.stringify\<close> of a string: quoted, with the quote, the backslash and the control
  characters escaped.\<close>

definition json_escape :: "char \<Rightarrow> string" where
  "json_escape c =
     (let n = (of_char c :: nat) in
      if n = 8 then [CHR 0x5C, CHR ''b'']
      else if n = 9 then [CHR 0x5C, CHR ''t'']
      else if n = 10 then [CHR 0x5C, CHR ''n'']
      else if n = 12 then [CHR 0x5C, CHR ''f'']
      else if n = 13 then [CHR 0x5C, CHR ''r'']
      else if n = 34 then [CHR 0x5C, CHR 0x22]
      else if n = 92 then [CHR 0x5C, CHR 0x5C]
      else if n < 32 then [CHR 0x5C, CHR ''u'', CHR ''0'', CHR ''0'', digit_char (n div 16), digit_char (n mod 16)]
      else [c])"

definition json_quote :: "string \<Rightarrow> string" where
  "json_quote s = CHR 0x22 # concat (map json_escape s) @ [CHR 0x22]"

fun join_comma :: "string list \<Rightarrow> string" where
  "join_comma [] = []"
| "join_comma [s] = s"
| "join_comma (s # t # ts) = s @ CHR '','' # join_comma (t # ts)"

text \<open>\<^verbatim>\<open>JSON.stringify(v)\<close>: undefined for undefined (\<open>None\<close>); inside an array undefined prints
  as null, inside an object a property whose value is undefined is left out.\<close>

fun json_stringify :: "jsval \<Rightarrow> string option" where
  "json_stringify JUndefined = None"
| "json_stringify JNull = Some ''null''"
| "json_stringify (JBool b) = Some (if b then ''true'' else ''false'')"
| "json_stringify (JNum n) = Some (show_num n)"
| "json_stringify (JStr s) = Some (json_quote s)"
| "json_stringify (JArr xs) =
     Some (CHR ''['' # join_comma (map (\<lambda>x. case json_stringify x of None \<Rightarrow> ''null'' | Some s \<Rightarrow> s) xs) @ '']'')"
| "json_stringify (JObj ps) =
     Some (CHR ''{'' # join_comma (concat (map (\<lambda>(k, v). case json_stringify v of None \<Rightarrow> []
                                                          | Some s \<Rightarrow> [json_quote k @ CHR '':'' # s]) ps)) @ ''}'')"

text \<open>A value interpolated into a template literal, where it is the result of
  \<^verbatim>\<open>JSON.stringify\<close> or a number that may be undefined.\<close>

definition interpolate :: "string option \<Rightarrow> string" where
  "interpolate s = (case s of None \<Rightarrow> ''undefined'' | Some t \<Rightarrow> t)"

text \<open>\<^verbatim>\<open>s.trim()\<close>: the white space and line terminators among the code units below 256.\<close>

definition is_space :: "char \<Rightarrow> bool" where
  "is_space c = ((of_char c :: nat) \<in> {9, 10, 11, 12, 13, 32, 160})"

definition js_trim :: "string \<Rightarrow> string" where
  "js_trim s = rev (dropWhile is_space (rev (dropWhile is_space s)))"

text \<open>\<^verbatim>\<open>s.split(',')\<close>: the empty string splits into one empty piece.\<close>

fun split_acc :: "string \<Rightarrow> string \<Rightarrow> string list" where
  "split_acc cur [] = [rev cur]"
| "split_acc cur (c # cs) =
     (if c = CHR '','' then rev cur # split_acc [] cs else split_acc (c # cur) cs)"

definition split_comma :: "string \<Rightarrow> string list" where
  "split_comma s = split_acc [] s"

text \<open>\<^verbatim>\<open>self.indexOf(value)\<close> (\<open>- 1\<close> when absent) and the filter
  \<^verbatim>\<open>(value, index, self) => self.indexOf(value) === index\<close>, which keeps the first
  occurrence of every value.\<close>

fun indexOf :: "'a list \<Rightarrow> 'a \<Rightarrow> int" where
  "indexOf [] v = - 1"
| "indexOf (x # xs) v =
     (if x = v then 0 else (let i = indexOf xs v in if i < 0 then - 1 else i + 1))"

definition remove_duplicates :: "'a list \<Rightarrow> 'a list" where
  "remove_duplicates self =
     map snd (filter (\<lambda>(index, v). indexOf self v = int index) (enumerate 0 self))"

text \<open>\<^verbatim>\<open>process.env.X || fallback\<close>: an unset and an empty variable both give the fallback.\<close>

definition or_default :: "string option \<Rightarrow> string \<Rightarrow> string" where
  "or_default v d = (case v of None \<Rightarrow> d | Some s \<Rightarrow> if s = [] then d else s)"

section \<open>Requests, replies and the provider\<close>

text \<open>What the middlewares read of a request: the method, the \<^verbatim>\<open>Origin\<close> and \<^verbatim>\<open>X-API-Key\<close>
  headers, and the parsed JSON body (\<^verbatim>\<open>req.body\<close>, an object).\<close>

record request =
  req_method :: string
  hdr_origin :: "string option"
  hdr_x_api_key :: "string option"
  req_body :: "(string \<times> jsval) list"

text \<open>A reply: the status and the argument of \<^verbatim>\<open>res.json\<close> (for \<^verbatim>\<open>res.sendStatus\<close>, the
  status text).\<close>

record reply =
  status :: nat
  content :: jsval

text \<open>The module constants read while serving: \<^verbatim>\<open>API_SECRET_KEY\<close>, \<^verbatim>\<open>ALLOWED_ORIGINS\<close>
  and \<^verbatim>\<open>process.env.NODE_ENV\<close>.\<close>

record config =
  API_SECRET_KEY :: string
  ALLOWED_ORIGINS :: "string list"
  NODE_ENV :: "string option"

text \<open>What the runtime supplies while a request is served: the clock reading
  \<^verbatim>\<open>new Date().toISOString()\<close> and the stack text of an error object created by the
  runtime.\<close>

record runtime =
  now :: string
  trace :: string

text \<open>
  An error thrown by a provider SDK, as the catch blocks read it: \<^verbatim>\<open>error.message\<close>,
  \<^verbatim>\<open>error.stack\<close>, \<^verbatim>\<open>error.code\<close> (the numeric code of SendGrid's response error, else
  undefined) and \<^verbatim>\<open>error.response\<close> (undefined, or the provider's HTTP response with its
  status, its raw \<^verbatim>\<open>text\<close> and its parsed \<^verbatim>\<open>body\<close>).
\<close>

record error_response =
  res_status :: jsnum
  res_text :: jsval
  res_body :: jsval

record failure =
  message :: string
  stack :: string
  code :: "jsnum option"
  response :: "error_response option"

text \<open>
  A request as it arrives, before \<^verbatim>\<open>bodyParser.json()\<close> has run. The parser is a
  dependency and parsing itself is not modelled: its outcome is part of the input. Either
  it sets \<^verbatim>\<open>req.body\<close> to the parsed object (the empty object when the request has no JSON
  body) and calls \<^verbatim>\<open>next()\<close>, or it calls \<^verbatim>\<open>next(err)\<close> with an error that carries an HTTP
  status (400 for malformed JSON, 413 for a body over the limit).
\<close>

datatype body_parse = Parsed "(string \<times> jsval) list" | Unparsable nat failure

record incoming =
  in_method :: string
  in_origin :: "string option"
  in_x_api_key :: "string option"
  in_body :: body_parse

text \<open>The request as the middlewares after the parser read it.\<close>

definition parsed_request :: "incoming \<Rightarrow> (string \<times> jsval) list \<Rightarrow> request" where
  "parsed_request inc b =
     \<lparr>req_method = in_method inc, hdr_origin = in_origin inc,
      hdr_x_api_key = in_x_api_key inc, req_body = b\<rparr>"

text \<open>
  Express's built-in error handler, which answers \<^verbatim>\<open>next(err)\<close> in \<^verbatim>\<open>index.js\<close> and
  \<^verbatim>\<open>part_001\<close> (they register no error handler): the status is the error's when that is
  an error status, else 500. The page it writes is HTML, not JSON, and is not modelled
  (the content is left undefined).
\<close>

definition default_error_handler :: "nat \<Rightarrow> reply" where
  "default_error_handler s =
     \<lparr>status = (if 400 \<le> s \<and> s < 600 then s else 500), content = JUndefined\<rparr>"

text \<open>The provider call (\<^verbatim>\<open>sendTransacEmail\<close>, \<^verbatim>\<open>sgMail.send\<close>) is a parameter of the
  handlers: given the send request it resolves with data or rejects with an error. Every
  handler returns its reply together with the list of send requests it passed to the
  provider.\<close>

datatype provider_result = Resolved jsval | Rejected failure

type_synonym provider = "jsval \<Rightarrow> provider_result"

text \<open>A middleware either calls \<^verbatim>\<open>next()\<close> or ends the request with a reply.\<close>

datatype step = Next | Reply reply

text \<open>\<^verbatim>\<open>new Error(msg)\<close>, and the TypeError of a template literal that cannot convert a
  value.\<close>

definition new_Error :: "runtime \<Rightarrow> string \<Rightarrow> failure" where
  "new_Error rt msg = \<lparr>message = msg, stack = trace rt, code = None, response = None\<rparr>"

definition log_line_throws :: "jsval \<Rightarrow> jsval \<Rightarrow> jsval \<Rightarrow> bool" where
  "log_line_throws subject to emailType =
     (to_string_throws subject \<or> to_string_throws to
      \<or> to_string_throws (js_or emailType (JStr ''general'')))"

section \<open>Configuration\<close>

record environment =
  env_API_SECRET_KEY :: "string option"
  env_ALLOWED_ORIGINS :: "string option"
  env_NODE_ENV :: "string option"

text \<open>\<^verbatim>\<open>index.js\<close> lines 10-11 and \<^verbatim>\<open>part_001\<close> lines 11-12.\<close>

definition idx_ALLOWED_ORIGINS :: "environment \<Rightarrow> string list" where
  "idx_ALLOWED_ORIGINS env =
     split_comma (or_default (env_ALLOWED_ORIGINS env) ''https://kenyaonabudgetsafaris.co.uk'')"

definition idx_config :: "environment \<Rightarrow> config" where
  "idx_config env =
     \<lparr>API_SECRET_KEY = or_default (env_API_SECRET_KEY env) ''your-secret-key-here'',
      ALLOWED_ORIGINS = idx_ALLOWED_ORIGINS env,
      NODE_ENV = env_NODE_ENV env\<rparr>"

text \<open>\<^verbatim>\<open>part_000\<close> lines 10-27.\<close>

definition allowedOriginsFromEnv :: "environment \<Rightarrow> string list" where
  "allowedOriginsFromEnv env =
     filter (\<lambda>origin. length origin > 0)
       (map js_trim (split_comma (or_default (env_ALLOWED_ORIGINS env) [])))"

definition base_origins :: "string list" where
  "base_origins =
     [''https://kenyaonabudgetsafaris.co.uk'',
      ''https://www.kenyaonabudgetsafaris.co.uk'',
      ''http://127.0.0.1:5500'',
      ''http://localhost:5500'',
      ''http://localhost:3000'']"

definition p0_ALLOWED_ORIGINS :: "environment \<Rightarrow> string list" where
  "p0_ALLOWED_ORIGINS env = remove_duplicates (base_origins @ allowedOriginsFromEnv env)"

definition p0_config :: "environment \<Rightarrow> config" where
  "p0_config env =
     \<lparr>API_SECRET_KEY = or_default (env_API_SECRET_KEY env) ''thiswillbesecretkey45'',
      ALLOWED_ORIGINS = p0_ALLOWED_ORIGINS env,
      NODE_ENV = env_NODE_ENV env\<rparr>"

section \<open>The request gate\<close>

subsection \<open>CORS middleware of \<^verbatim>\<open>index.js\<close> (lines 22-35) and \<^verbatim>\<open>part_001\<close> (lines 21-34)\<close>

text \<open>The result is the list of headers written with \<^verbatim>\<open>res.header\<close> and what happens next:
  \<^verbatim>\<open>res.sendStatus(200)\<close> for OPTIONS, \<^verbatim>\<open>next()\<close> otherwise.
  \<^verbatim>\<open>ALLOWED_ORIGINS.includes(origin)\<close> is false for an undefined origin.\<close>

definition cors_middleware :: "config \<Rightarrow> request \<Rightarrow> (string \<times> string) list \<times> step" where
  "cors_middleware cfg req =
     (let headers =
        (case hdr_origin req of
           None \<Rightarrow> []
         | Some origin \<Rightarrow>
             if origin \<in> set (ALLOWED_ORIGINS cfg)
             then [(''Access-Control-Allow-Origin'', origin),
                   (''Access-Control-Allow-Methods'', ''GET, POST, OPTIONS''),
                   (''Access-Control-Allow-Headers'', ''Content-Type, Authorization, X-API-Key'')]
             else [])
      in (headers,
          if req_method req = ''OPTIONS'' then Reply \<lparr>status = 200, content = JStr ''OK''\<rparr>
          else Next))"

subsection \<open>Origin callback of \<^verbatim>\<open>part_000\<close> (lines 56-81)\<close>

text \<open>\<^verbatim>\<open>origin.endsWith('/') ? origin.slice(0, -1) : origin\<close>\<close>

definition clean_origin :: "string \<Rightarrow> string" where
  "clean_origin origin =
     (if origin \<noteq> [] \<and> last origin = CHR ''/'' then butlast origin else origin)"

text \<open>\<open>None\<close> stands for \<^verbatim>\<open>callback(null, true)\<close>, \<open>Some e\<close> for \<^verbatim>\<open>callback(e)\<close>.\<close>

definition origin_callback :: "config \<Rightarrow> runtime \<Rightarrow> string option \<Rightarrow> failure option" where
  "origin_callback cfg rt origin =
     (if \<not> truthy (header origin) then None
      else
        (let cleanOrigin = clean_origin (case origin of None \<Rightarrow> [] | Some s \<Rightarrow> s) in
         if cleanOrigin \<in> set (ALLOWED_ORIGINS cfg) then None
         else if NODE_ENV cfg = Some ''development'' then None
         else Some (new_Error rt (''Origin '' @ cleanOrigin @ '' not allowed by CORS policy''))))"

text \<open>
  The \<^verbatim>\<open>cors\<close> package is a dependency and not part of the repository. The model takes
  its behaviour for the options of \<^verbatim>\<open>part_000\<close> (lines 82-86). An error of the origin
  callback is passed to \<^verbatim>\<open>next(err)\<close> and no header is written. For an accepted origin
  the package reflects the \<^verbatim>\<open>Origin\<close> header as sent (when it is not empty) in
  \<^verbatim>\<open>Access-Control-Allow-Origin\<close>, adds \<^verbatim>\<open>Vary: Origin\<close> and, as \<^verbatim>\<open>credentials\<close> is true,
  \<^verbatim>\<open>Access-Control-Allow-Credentials: true\<close>. Only for an OPTIONS request it adds the
  configured methods and headers, each list joined with commas, and ends the request with
  \<^verbatim>\<open>optionsSuccessStatus\<close> 204 and an empty body (as \<^verbatim>\<open>preflightContinue\<close> is false); any
  other request continues with \<^verbatim>\<open>next()\<close>.
\<close>

definition cors_package_headers :: "request \<Rightarrow> (string \<times> string) list" where
  "cors_package_headers req =
     (case hdr_origin req of
        None \<Rightarrow> []
      | Some origin \<Rightarrow> if origin = [] then [] else [(''Access-Control-Allow-Origin'', origin)])
     @ [(''Vary'', ''Origin''), (''Access-Control-Allow-Credentials'', ''true'')]
     @ (if req_method req = ''OPTIONS''
        then [(''Access-Control-Allow-Methods'', ''GET,POST,OPTIONS''),
              (''Access-Control-Allow-Headers'', ''Content-Type,Authorization,X-API-Key''),
              (''Content-Length'', ''0'')]
        else [])"

datatype gate =
    Pass "(string \<times> string) list"
  | End "(string \<times> string) list" reply
  | Raise failure

definition p0_cors :: "config \<Rightarrow> runtime \<Rightarrow> request \<Rightarrow> gate" where
  "p0_cors cfg rt req =
     (case origin_callback cfg rt (hdr_origin req) of
        Some err \<Rightarrow> Raise err
      | None \<Rightarrow>
          if req_method req = ''OPTIONS''
          then End (cors_package_headers req) \<lparr>status = 204, content = JUndefined\<rparr>
          else Pass (cors_package_headers req))"

text \<open>The error handler of \<^verbatim>\<open>part_000\<close> (lines 264-272), which Express calls for
  \<^verbatim>\<open>next(err)\<close>.\<close>

definition p0_error_handler :: "config \<Rightarrow> runtime \<Rightarrow> failure \<Rightarrow> reply" where
  "p0_error_handler cfg rt err =
     \<lparr>status = 500,
      content = JObj
        [(''error'', JStr ''Internal Server Error''),
         (''message'', JStr (if NODE_ENV cfg = Some ''development'' then message err
                             else ''An unexpected error occurred'')),
         (''stack'', if NODE_ENV cfg = Some ''development'' then JStr (stack err) else JUndefined),
         (''timestamp'', JStr (now rt))]\<rparr>"

subsection \<open>Credential check\<close>

text \<open>\<^verbatim>\<open>validateApiKey\<close> of \<^verbatim>\<open>index.js\<close> (lines 38-44) and \<^verbatim>\<open>part_001\<close> (lines 37-43).\<close>

definition validateApiKey :: "config \<Rightarrow> request \<Rightarrow> step" where
  "validateApiKey cfg req =
     (let apiKey = header (hdr_x_api_key req) in
      if \<not> truthy apiKey \<or> apiKey \<noteq> JStr (API_SECRET_KEY cfg)
      then Reply \<lparr>status = 401,
                  content = JObj [(''error'', JStr ''Unauthorized: Invalid API key'')]\<rparr>
      else Next)"

text \<open>\<^verbatim>\<open>validateApiKey\<close> of \<^verbatim>\<open>part_000\<close> (lines 93-117).\<close>

definition p0_validateApiKey :: "config \<Rightarrow> runtime \<Rightarrow> request \<Rightarrow> step" where
  "p0_validateApiKey cfg rt req =
     (let apiKey = header (hdr_x_api_key req) in
      if \<not> truthy apiKey
      then Reply \<lparr>status = 401,
                  content = JObj [(''error'', JStr ''Unauthorized: API key is required''),
                                  (''status'', JStr ''error''),
                                  (''timestamp'', JStr (now rt))]\<rparr>
      else if apiKey \<noteq> JStr (API_SECRET_KEY cfg)
      then Reply \<lparr>status = 401,
                  content = JObj [(''error'', JStr ''Unauthorized: Invalid API key''),
                                  (''status'', JStr ''error''),
                                  (''timestamp'', JStr (now rt))]\<rparr>
      else Next)"

section \<open>The relay dispatcher\<close>

text \<open>\<^verbatim>\<open>{ email: v }\<close>\<close>

definition address :: "jsval \<Rightarrow> jsval" where
  "address v = JObj [(''email'', v)]"

text \<open>The loop over \<^verbatim>\<open>cc\<close> that fills \<^verbatim>\<open>ccRecipients\<close> (\<^verbatim>\<open>index.js\<close> lines 72-77,
  \<^verbatim>\<open>part_000\<close> lines 196-201).\<close>

definition ccRecipients :: "jsval \<Rightarrow> jsval list" where
  "ccRecipients cc =
     (if truthy cc \<and> isArray cc \<and> length (elements cc) > 0
      then map address (elements cc) else [])"

text \<open>\<^verbatim>\<open>sender\<close> (\<^verbatim>\<open>index.js\<close> lines 63-66, \<^verbatim>\<open>part_000\<close> lines 187-190).\<close>

definition sender :: "jsval \<Rightarrow> jsval \<Rightarrow> jsval" where
  "sender from name =
     JObj [(''email'', js_or from (JStr ''info@kenyaonabudgetsafaris.co.uk'')),
           (''name'', js_or name (JStr ''KenyaOnABudget Safaris''))]"

subsection \<open>\<^verbatim>\<open>index.js\<close>, lines 47-112\<close>

text \<open>The send request built from the body (lines 63-86). The property \<^verbatim>\<open>cc\<close> is written
  in every case, with the value undefined when there is no CC recipient.\<close>

definition idx_sendEmailRequest :: "request \<Rightarrow> jsval" where
  "idx_sendEmailRequest req =
     (let to = field (req_body req) ''to'';
          subject = field (req_body req) ''subject'';
          html = field (req_body req) ''html'';
          cc = field (req_body req) ''cc'';
          from = field (req_body req) ''from'';
          name = field (req_body req) ''name'';
          recipients = [address to]
      in JObj [(''sender'', sender from name),
               (''to'', JArr recipients),
               (''cc'', if length (ccRecipients cc) > 0 then JArr (ccRecipients cc) else JUndefined),
               (''subject'', subject),
               (''htmlContent'', html)])"

definition idx_errorMessage :: "failure \<Rightarrow> string" where
  "idx_errorMessage error =
     (case response error of
        Some r \<Rightarrow> ''Brevo error: '' @ interpolate (json_stringify (res_text r))
      | None \<Rightarrow> message error)"

definition idx_catch :: "failure \<Rightarrow> reply" where
  "idx_catch error =
     \<lparr>status = 500,
      content = JObj [(''success'', JBool False), (''error'', JStr (idx_errorMessage error))]\<rparr>"

definition idx_handler :: "runtime \<Rightarrow> provider \<Rightarrow> request \<Rightarrow> reply \<times> jsval list" where
  "idx_handler rt sendTransacEmail req =
     (let to = field (req_body req) ''to'';
          subject = field (req_body req) ''subject'';
          html = field (req_body req) ''html'';
          emailType = field (req_body req) ''emailType''
      in
      if \<not> truthy to \<or> \<not> truthy subject \<or> \<not> truthy html
      then (\<lparr>status = 400,
             content = JObj [(''success'', JBool False),
                             (''error'', JStr ''Missing required fields (to, subject, html)'')]\<rparr>, [])
      else
        (let request = idx_sendEmailRequest req in
         (case sendTransacEmail request of
            Resolved data \<Rightarrow>
              if log_line_throws subject to emailType
              then (idx_catch (new_Error rt ''Cannot convert object to primitive value''),
                    [request])
              else (\<lparr>status = 200,
                     content = JObj [(''success'', JBool True),
                                     (''message'', JStr ''Email sent successfully''),
                                     (''data'', data)]\<rparr>, [request])
          | Rejected error \<Rightarrow> (idx_catch error, [request]))))"

subsection \<open>\<^verbatim>\<open>part_000\<close>, lines 152-251\<close>

text \<open>The send request built from the body (lines 187-210).\<close>

definition p0_sendEmailRequest :: "request \<Rightarrow> jsval" where
  "p0_sendEmailRequest req =
     (let to = field (req_body req) ''to'';
          subject = field (req_body req) ''subject'';
          html = field (req_body req) ''html'';
          cc = field (req_body req) ''cc'';
          from = field (req_body req) ''from'';
          name = field (req_body req) ''name'';
          recipients = (if isArray to then map address (elements to) else [address to])
      in JObj [(''sender'', sender from name),
               (''to'', JArr recipients),
               (''cc'', if length (ccRecipients cc) > 0 then JArr (ccRecipients cc) else JUndefined),
               (''subject'', subject),
               (''htmlContent'', html)])"

text \<open>The inner \<^verbatim>\<open>try\<close> of lines 233-239 guards \<^verbatim>\<open>JSON.stringify\<close>, which throws only on
  cyclic values and BigInts; a \<open>jsval\<close> is neither, so its \<^verbatim>\<open>catch\<close> has no case here.\<close>

definition p0_errorMessage :: "failure \<Rightarrow> string" where
  "p0_errorMessage error =
     (case response error of
        Some r \<Rightarrow>
          ''Brevo API error: '' @
          interpolate (json_stringify
            (js_or (js_or (res_text r) (res_body r)) (JStr ''Unknown API error'')))
      | None \<Rightarrow> message error)"

definition p0_catch :: "config \<Rightarrow> runtime \<Rightarrow> failure \<Rightarrow> reply" where
  "p0_catch cfg rt error =
     \<lparr>status = 500,
      content = JObj
        [(''success'', JBool False),
         (''error'', JStr (p0_errorMessage error)),
         (''stack'', if NODE_ENV cfg = Some ''development'' then JStr (stack error) else JUndefined),
         (''timestamp'', JStr (now rt))]\<rparr>"

definition p0_handler :: "config \<Rightarrow> runtime \<Rightarrow> provider \<Rightarrow> request \<Rightarrow> reply \<times> jsval list" where
  "p0_handler cfg rt sendTransacEmail req =
     (let to = field (req_body req) ''to'';
          subject = field (req_body req) ''subject'';
          html = field (req_body req) ''html'';
          emailType = field (req_body req) ''emailType''
      in
      if \<not> truthy to \<or> \<not> truthy subject \<or> \<not> truthy html
      then (\<lparr>status = 400,
             content = JObj [(''success'', JBool False),
                             (''error'', JStr ''Missing required fields (to, subject, html)''),
                             (''timestamp'', JStr (now rt))]\<rparr>, [])
      else
        (let request = p0_sendEmailRequest req in
         (case sendTransacEmail request of
            Resolved data \<Rightarrow>
              if log_line_throws subject to emailType
              then (p0_catch cfg rt (new_Error rt ''Cannot convert object to primitive value''),
                    [request])
              else (\<lparr>status = 200,
                     content = JObj [(''success'', JBool True),
                                     (''message'', JStr ''Email sent successfully''),
                                     (''data'', data),
                                     (''timestamp'', JStr (now rt))]\<rparr>, [request])
          | Rejected error \<Rightarrow> (p0_catch cfg rt error, [request]))))"

subsection \<open>\<^verbatim>\<open>part_001\<close>, lines 46-94\<close>

text \<open>\<^verbatim>\<open>msg\<close> (lines 59-69): \<^verbatim>\<open>msg.cc\<close> is assigned only for a non-empty array.\<close>

definition p1_msg :: "request \<Rightarrow> jsval" where
  "p1_msg req =
     (let to = field (req_body req) ''to'';
          subject = field (req_body req) ''subject'';
          html = field (req_body req) ''html'';
          cc = field (req_body req) ''cc'';
          from = field (req_body req) ''from''
      in JObj ([(''to'', to),
                (''from'', js_or from (JStr ''info@kenyaonabudgetsafaris.co.uk'')),
                (''subject'', subject),
                (''html'', html)]
               @ (if truthy cc \<and> isArray cc \<and> length (elements cc) > 0 then [(''cc'', cc)] else [])))"

definition p1_errorMessage :: "failure \<Rightarrow> string" where
  "p1_errorMessage error =
     (case response error of
        Some r \<Rightarrow>
          ''SendGrid error ('' @ interpolate (map_option show_num (code error)) @ ''): '' @
          interpolate (json_stringify (res_body r))
      | None \<Rightarrow> message error)"

definition p1_catch :: "failure \<Rightarrow> reply" where
  "p1_catch error =
     \<lparr>status = 500,
      content = JObj [(''success'', JBool False), (''error'', JStr (p1_errorMessage error))]\<rparr>"

definition p1_handler :: "runtime \<Rightarrow> provider \<Rightarrow> request \<Rightarrow> reply \<times> jsval list" where
  "p1_handler rt send req =
     (let to = field (req_body req) ''to'';
          subject = field (req_body req) ''subject'';
          html = field (req_body req) ''html'';
          emailType = field (req_body req) ''emailType''
      in
      if \<not> truthy to \<or> \<not> truthy subject \<or> \<not> truthy html
      then (\<lparr>status = 400,
             content = JObj [(''success'', JBool False),
                             (''error'', JStr ''Missing required fields (to, subject, html)'')]\<rparr>, [])
      else
        (let m = p1_msg req in
         (case send m of
            Resolved data \<Rightarrow>
              if log_line_throws subject to emailType
              then (p1_catch (new_Error rt ''Cannot convert object to primitive value''), [m])
              else (\<lparr>status = 200,
                     content = JObj [(''success'', JBool True),
                                     (''message'', JStr ''Email sent successfully'')]\<rparr>, [m])
          | Rejected error \<Rightarrow> (p1_catch error, [m]))))"

section \<open>Routes and middleware chains\<close>

text \<open>\<^verbatim>\<open>app.post('/send-email', validateApiKey, handler)\<close>: the handler runs only when the
  credential check called \<^verbatim>\<open>next()\<close>.\<close>

definition idx_route :: "config \<Rightarrow> runtime \<Rightarrow> provider \<Rightarrow> request \<Rightarrow> reply \<times> jsval list" where
  "idx_route cfg rt provider req =
     (case validateApiKey cfg req of
        Reply r \<Rightarrow> (r, [])
      | Next \<Rightarrow> idx_handler rt provider req)"

definition p0_route :: "config \<Rightarrow> runtime \<Rightarrow> provider \<Rightarrow> request \<Rightarrow> reply \<times> jsval list" where
  "p0_route cfg rt provider req =
     (case p0_validateApiKey cfg rt req of
        Reply r \<Rightarrow> (r, [])
      | Next \<Rightarrow> p0_handler cfg rt provider req)"

definition p1_route :: "config \<Rightarrow> runtime \<Rightarrow> provider \<Rightarrow> request \<Rightarrow> reply \<times> jsval list" where
  "p1_route cfg rt provider req =
     (case validateApiKey cfg req of
        Reply r \<Rightarrow> (r, [])
      | Next \<Rightarrow> p1_handler rt provider req)"

text \<open>
  The application, from the arrival of a request to its reply. \<open>h\<close> is the route that
  Express matches for the request (the send route above, a diagnostic route or the
  not-found handler). The result is the headers written by the middlewares of the source
  and by the \<^verbatim>\<open>cors\<close> package, the reply, and the provider calls.

  \<^verbatim>\<open>index.js\<close> (lines 19-35) and \<^verbatim>\<open>part_001\<close> (lines 18-34): the body parser, then the
  CORS middleware, then the route. A parse error skips both and is answered by Express's
  built-in error handler.
\<close>

definition simple_app ::
  "config \<Rightarrow> incoming \<Rightarrow> (request \<Rightarrow> reply \<times> jsval list) \<Rightarrow> (string \<times> string) list \<times> reply \<times> jsval list" where
  "simple_app cfg inc h =
     (case in_body inc of
        Unparsable s err \<Rightarrow> ([], default_error_handler s, [])
      | Parsed b \<Rightarrow>
          (case cors_middleware cfg (parsed_request inc b) of
             (headers, Reply r) \<Rightarrow> (headers, r, [])
           | (headers, Next) \<Rightarrow> (headers, h (parsed_request inc b))))"

text \<open>
  \<^verbatim>\<open>part_000\<close> (lines 38-87): the logging middleware, which writes the header
  \<^verbatim>\<open>X-Server-Timestamp\<close>, then the body parser, then the \<^verbatim>\<open>cors\<close> package, then the route.
  An error of the parser or of the origin callback goes to the error handler of lines
  264-272 and no route runs.
\<close>

definition p0_app ::
  "config \<Rightarrow> runtime \<Rightarrow> incoming \<Rightarrow> (request \<Rightarrow> reply \<times> jsval list) \<Rightarrow> (string \<times> string) list \<times> reply \<times> jsval list" where
  "p0_app cfg rt inc h =
     (let stamp = [(''X-Server-Timestamp'', now rt)] in
      case in_body inc of
        Unparsable s err \<Rightarrow> (stamp, p0_error_handler cfg rt err, [])
      | Parsed b \<Rightarrow>
          (case p0_cors cfg rt (parsed_request inc b) of
             Raise err \<Rightarrow> (stamp, p0_error_handler cfg rt err, [])
           | End headers r \<Rightarrow> (stamp @ headers, r, [])
           | Pass headers \<Rightarrow> (stamp @ headers, h (parsed_request inc b))))"

section \<open>Properties of the credential check\<close>

text \<open>The falsy values, and the credential checks as case distinctions on the header.\<close>

lemma falsy_cases:
  "(\<not> truthy v) = (v \<in> {JUndefined, JNull, JBool False, JNum 0, JStr []})"
  by (cases v) auto

lemma truthy_header: "truthy (header h) = (\<exists>s. h = Some s \<and> s \<noteq> [])"
  by (cases h) (auto simp: header_def)

lemma header_eq_JStr: "(header h = JStr s) = (h = Some s)"
  by (cases h) (auto simp: header_def)

lemma validateApiKey_cases:
  "validateApiKey cfg req =
     (if hdr_x_api_key req = Some (API_SECRET_KEY cfg) \<and> API_SECRET_KEY cfg \<noteq> [] then Next
      else Reply \<lparr>status = 401, content = JObj [(''error'', JStr ''Unauthorized: Invalid API key'')]\<rparr>)"
  by (auto simp: validateApiKey_def Let_def truthy_header header_eq_JStr)

lemma p0_validateApiKey_cases:
  "p0_validateApiKey cfg rt req =
     (if hdr_x_api_key req = None \<or> hdr_x_api_key req = Some []
      then Reply \<lparr>status = 401,
                  content = JObj [(''error'', JStr ''Unauthorized: API key is required''),
                                  (''status'', JStr ''error''),
                                  (''timestamp'', JStr (now rt))]\<rparr>
      else if hdr_x_api_key req \<noteq> Some (API_SECRET_KEY cfg)
      then Reply \<lparr>status = 401,
                  content = JObj [(''error'', JStr ''Unauthorized: Invalid API key''),
                                  (''status'', JStr ''error''),
                                  (''timestamp'', JStr (now rt))]\<rparr>
      else Next)"
  by (cases "hdr_x_api_key req") (auto simp: p0_validateApiKey_def Let_def header_def)

text \<open>The secret read from the environment is never the empty string: an empty variable
  falls back to the built-in default.\<close>

lemma configured_secret_nonempty:
  "API_SECRET_KEY (idx_config env) \<noteq> [] \<and> API_SECRET_KEY (p0_config env) \<noteq> []"
  by (simp add: idx_config_def p0_config_def or_default_def split: option.splits)

text \<open>What the routes reply to a key that is not the secret, or is empty, and what the
  applications reply once the body has parsed and the request has passed the origin check.\<close>

lemma routes_reject:
  assumes "hdr_x_api_key req \<noteq> Some (API_SECRET_KEY cfg) \<or> hdr_x_api_key req = Some []"
  shows "idx_route cfg rt provider req =
           (\<lparr>status = 401, content = JObj [(''error'', JStr ''Unauthorized: Invalid API key'')]\<rparr>, [])"
    and "p1_route cfg rt provider req =
           (\<lparr>status = 401, content = JObj [(''error'', JStr ''Unauthorized: Invalid API key'')]\<rparr>, [])"
    and "p0_route cfg rt provider req =
           (\<lparr>status = 401,
             content = JObj [(''error'', JStr (if hdr_x_api_key req = None \<or> hdr_x_api_key req = Some []
                                              then ''Unauthorized: API key is required''
                                              else ''Unauthorized: Invalid API key'')),
                             (''status'', JStr ''error''),
                             (''timestamp'', JStr (now rt))]\<rparr>, [])"
  using assms
  by (auto simp: idx_route_def p1_route_def p0_route_def validateApiKey_cases p0_validateApiKey_cases)

lemma simple_app_parsed:
  "in_body inc = Parsed b \<Longrightarrow> in_method inc \<noteq> ''OPTIONS'' \<Longrightarrow>
     snd (simple_app cfg inc h) = h (parsed_request inc b)"
  by (simp add: simple_app_def cors_middleware_def Let_def parsed_request_def)

lemma p0_app_parsed:
  "in_body inc = Parsed b \<Longrightarrow> in_method inc \<noteq> ''OPTIONS'' \<Longrightarrow>
   origin_callback cfg rt (in_origin inc) = None \<Longrightarrow>
     snd (p0_app cfg rt inc h) = h (parsed_request inc b)"
  by (simp add: p0_app_def p0_cors_def Let_def parsed_request_def)

text \<open>
  C2, as the code has it. For a \<^verbatim>\<open>POST /send-email\<close> request whose \<^verbatim>\<open>X-API-Key\<close> header is
  absent, or is not exactly the configured secret, the provider is never invoked, in all
  three variants and whatever else the request holds. The response is 401 with an error
  that starts with \<^verbatim>\<open>Unauthorized\<close> when the body parses and, in \<^verbatim>\<open>part_000\<close>, the origin
  callback accepts the request's origin: the body parser and the CORS step run before the
  credential check and answer first when they fail.
\<close>

theorem invalid_key_unauthorized:
  assumes "in_method inc = ''POST''"
    and "in_x_api_key inc = None \<or> in_x_api_key inc \<noteq> Some (API_SECRET_KEY cfg)"
  shows "(\<forall>b. in_body inc = Parsed b \<longrightarrow>
            snd (simple_app cfg inc (idx_route cfg rt provider)) =
              (\<lparr>status = 401, content = JObj [(''error'', JStr ''Unauthorized: Invalid API key'')]\<rparr>, [])
          \<and> snd (simple_app cfg inc (p1_route cfg rt provider)) =
              (\<lparr>status = 401, content = JObj [(''error'', JStr ''Unauthorized: Invalid API key'')]\<rparr>, []))
       \<and> (\<forall>b. in_body inc = Parsed b \<and> origin_callback cfg rt (in_origin inc) = None \<longrightarrow>
            snd (p0_app cfg rt inc (p0_route cfg rt provider)) =
              (\<lparr>status = 401,
                content = JObj [(''error'', JStr (if in_x_api_key inc = None \<or> in_x_api_key inc = Some []
                                                 then ''Unauthorized: API key is required''
                                                 else ''Unauthorized: Invalid API key'')),
                                (''status'', JStr ''error''),
                                (''timestamp'', JStr (now rt))]\<rparr>, []))
       \<and> snd (snd (simple_app cfg inc (idx_route cfg rt provider))) = []
       \<and> snd (snd (simple_app cfg inc (p1_route cfg rt provider))) = []
       \<and> snd (snd (p0_app cfg rt inc (p0_route cfg rt provider))) = []"
proof -
  from assms have post: "in_method inc \<noteq> ''OPTIONS''"
    and ne: "\<And>b. hdr_x_api_key (parsed_request inc b) \<noteq> Some (API_SECRET_KEY cfg)
                \<or> hdr_x_api_key (parsed_request inc b) = Some []"
    by (auto simp: parsed_request_def)
  have key: "\<And>b. hdr_x_api_key (parsed_request inc b) = in_x_api_key inc"
    by (simp add: parsed_request_def)
  have a: "\<forall>b. in_body inc = Parsed b \<longrightarrow>
            snd (simple_app cfg inc (idx_route cfg rt provider)) =
              (\<lparr>status = 401, content = JObj [(''error'', JStr ''Unauthorized: Invalid API key'')]\<rparr>, [])
          \<and> snd (simple_app cfg inc (p1_route cfg rt provider)) =
              (\<lparr>status = 401, content = JObj [(''error'', JStr ''Unauthorized: Invalid API key'')]\<rparr>, [])"
    using post by (simp add: simple_app_parsed routes_reject [OF ne])
  have b: "\<forall>b. in_body inc = Parsed b \<and> origin_callback cfg rt (in_origin inc) = None \<longrightarrow>
            snd (p0_app cfg rt inc (p0_route cfg rt provider)) =
              (\<lparr>status = 401,
                content = JObj [(''error'', JStr (if in_x_api_key inc = None \<or> in_x_api_key inc = Some []
                                                 then ''Unauthorized: API key is required''
                                                 else ''Unauthorized: Invalid API key'')),
                                (''status'', JStr ''error''),
                                (''timestamp'', JStr (now rt))]\<rparr>, [])"
    using post by (simp add: p0_app_parsed routes_reject [OF ne] key)
  have nocall: "\<And>req. hdr_x_api_key req = in_x_api_key inc \<Longrightarrow>
      snd (idx_route cfg rt provider req) = [] \<and> snd (p1_route cfg rt provider req) = []
      \<and> snd (p0_route cfg rt provider req) = []"
    using assms(2) by (auto simp: routes_reject)
  have c: "snd (snd (simple_app cfg inc (idx_route cfg rt provider))) = []"
    and d: "snd (snd (simple_app cfg inc (p1_route cfg rt provider))) = []"
    and e: "snd (snd (p0_app cfg rt inc (p0_route cfg rt provider))) = []"
    using nocall
    by (auto simp: simple_app_def p0_app_def Let_def parsed_request_def
        split: body_parse.splits prod.splits step.splits gate.splits)
  from a b c d e show ?thesis by blast
qed

theorem invalid_key_unauthorized_witness:
  "snd (simple_app (idx_config \<lparr>env_API_SECRET_KEY = Some ''s3cret'', env_ALLOWED_ORIGINS = None, env_NODE_ENV = None\<rparr>)
     \<lparr>in_method = ''POST'', in_origin = None, in_x_api_key = Some ''guess'',
      in_body = Parsed [(''to'', JStr ''a@x.com''), (''subject'', JStr ''Hi''), (''html'', JStr ''<p>hi</p>'')]\<rparr>
     (idx_route (idx_config \<lparr>env_API_SECRET_KEY = Some ''s3cret'', env_ALLOWED_ORIGINS = None, env_NODE_ENV = None\<rparr>)
        \<lparr>now = ''2024-05-01T10:00:00.000Z'', trace = []\<rparr> (\<lambda>r. Resolved JNull)))
   = (\<lparr>status = 401, content = JObj [(''error'', JStr ''Unauthorized: Invalid API key'')]\<rparr>, [])
   \<and> snd (p0_app (p0_config \<lparr>env_API_SECRET_KEY = Some ''s3cret'', env_ALLOWED_ORIGINS = None, env_NODE_ENV = None\<rparr>)
     \<lparr>now = ''2024-05-01T10:00:00.000Z'', trace = []\<rparr>
     \<lparr>in_method = ''POST'', in_origin = Some ''http://localhost:3000/'', in_x_api_key = None,
      in_body = Parsed [(''to'', JStr ''a@x.com''), (''subject'', JStr ''Hi''), (''html'', JStr ''<p>hi</p>'')]\<rparr>
     (p0_route (p0_config \<lparr>env_API_SECRET_KEY = Some ''s3cret'', env_ALLOWED_ORIGINS = None, env_NODE_ENV = None\<rparr>)
        \<lparr>now = ''2024-05-01T10:00:00.000Z'', trace = []\<rparr> (\<lambda>r. Resolved JNull)))
   = (\<lparr>status = 401,
       content = JObj [(''error'', JStr ''Unauthorized: API key is required''),
                       (''status'', JStr ''error''),
                       (''timestamp'', JStr ''2024-05-01T10:00:00.000Z'')]\<rparr>, [])"
proof -
  have accepted: "origin_callback
      (p0_config \<lparr>env_API_SECRET_KEY = Some ''s3cret'', env_ALLOWED_ORIGINS = None, env_NODE_ENV = None\<rparr>)
      \<lparr>now = ''2024-05-01T10:00:00.000Z'', trace = []\<rparr> (Some ''http://localhost:3000/'') = None"
    by code_simp
  show ?thesis
    using accepted
      invalid_key_unauthorized
      [where inc = "\<lparr>in_method = ''POST'', in_origin = None, in_x_api_key = Some ''guess'',
        in_body = Parsed [(''to'', JStr ''a@x.com''), (''subject'', JStr ''Hi''), (''html'', JStr ''<p>hi</p>'')]\<rparr>"
        and cfg = "idx_config \<lparr>env_API_SECRET_KEY = Some ''s3cret'', env_ALLOWED_ORIGINS = None, env_NODE_ENV = None\<rparr>"
        and rt = "\<lparr>now = ''2024-05-01T10:00:00.000Z'', trace = []\<rparr>" and provider = "\<lambda>r. Resolved JNull"]
      invalid_key_unauthorized
      [where inc = "\<lparr>in_method = ''POST'', in_origin = Some ''http://localhost:3000/'', in_x_api_key = None,
        in_body = Parsed [(''to'', JStr ''a@x.com''), (''subject'', JStr ''Hi''), (''html'', JStr ''<p>hi</p>'')]\<rparr>"
        and cfg = "p0_config \<lparr>env_API_SECRET_KEY = Some ''s3cret'', env_ALLOWED_ORIGINS = None, env_NODE_ENV = None\<rparr>"
        and rt = "\<lparr>now = ''2024-05-01T10:00:00.000Z'', trace = []\<rparr>" and provider = "\<lambda>r. Resolved JNull"]
    by (simp add: idx_config_def or_default_def)
qed

text \<open>C2 as stated fails on two requests without a key: in \<^verbatim>\<open>part_000\<close> a request from an
  origin that is not listed is answered 500 by the error handler, and in \<^verbatim>\<open>index.js\<close> a
  request whose body does not parse is answered 400 by Express.\<close>

theorem gate_before_key_counterexample:
  "snd (p0_app (p0_config \<lparr>env_API_SECRET_KEY = None, env_ALLOWED_ORIGINS = None, env_NODE_ENV = None\<rparr>)
     \<lparr>now = ''2024-05-01T10:00:00.000Z'', trace = []\<rparr>
     \<lparr>in_method = ''POST'', in_origin = Some ''https://evil.example'', in_x_api_key = None,
      in_body = Parsed [(''to'', JStr ''a@x.com''), (''subject'', JStr ''Hi''), (''html'', JStr ''<p>hi</p>'')]\<rparr>
     (p0_route (p0_config \<lparr>env_API_SECRET_KEY = None, env_ALLOWED_ORIGINS = None, env_NODE_ENV = None\<rparr>)
        \<lparr>now = ''2024-05-01T10:00:00.000Z'', trace = []\<rparr> (\<lambda>r. Resolved JNull)))
   = (\<lparr>status = 500,
       content = JObj [(''error'', JStr ''Internal Server Error''),
                       (''message'', JStr ''An unexpected error occurred''),
                       (''stack'', JUndefined),
                       (''timestamp'', JStr ''2024-05-01T10:00:00.000Z'')]\<rparr>, [])
   \<and> snd (simple_app (idx_config \<lparr>env_API_SECRET_KEY = None, env_ALLOWED_ORIGINS = None, env_NODE_ENV = None\<rparr>)
     \<lparr>in_method = ''POST'', in_origin = None, in_x_api_key = None,
      in_body = Unparsable 400 \<lparr>message = ''Unexpected end of JSON input'', stack = [], code = None,
                                response = None\<rparr>\<rparr>
     (idx_route (idx_config \<lparr>env_API_SECRET_KEY = None, env_ALLOWED_ORIGINS = None, env_NODE_ENV = None\<rparr>)
        \<lparr>now = ''2024-05-01T10:00:00.000Z'', trace = []\<rparr> (\<lambda>r. Resolved JNull)))
   = (\<lparr>status = 400, content = JUndefined\<rparr>, [])"
  by code_simp

text \<open>
  C10, as the code has it. For a \<^verbatim>\<open>POST /send-email\<close> request whose \<^verbatim>\<open>X-API-Key\<close> header is
  present with the empty string as its value, the provider is never invoked, whatever the
  configured secret is, also when the secret is itself the empty string: \<^verbatim>\<open>!apiKey\<close> holds
  for the empty string, so the comparison with the secret is not reached. The response is
  401 (in \<^verbatim>\<open>part_000\<close> the reply for a missing key) when the body parses and, in
  \<^verbatim>\<open>part_000\<close>, the origin callback accepts the request's origin.
\<close>

theorem empty_key_unauthorized:
  assumes "in_method inc = ''POST''" and "in_x_api_key inc = Some []"
  shows "(\<forall>b. in_body inc = Parsed b \<longrightarrow>
            snd (simple_app cfg inc (idx_route cfg rt provider)) =
              (\<lparr>status = 401, content = JObj [(''error'', JStr ''Unauthorized: Invalid API key'')]\<rparr>, [])
          \<and> snd (simple_app cfg inc (p1_route cfg rt provider)) =
              (\<lparr>status = 401, content = JObj [(''error'', JStr ''Unauthorized: Invalid API key'')]\<rparr>, []))
       \<and> (\<forall>b. in_body inc = Parsed b \<and> origin_callback cfg rt (in_origin inc) = None \<longrightarrow>
            snd (p0_app cfg rt inc (p0_route cfg rt provider)) =
              (\<lparr>status = 401,
                content = JObj [(''error'', JStr ''Unauthorized: API key is required''),
                                (''status'', JStr ''error''),
                                (''timestamp'', JStr (now rt))]\<rparr>, []))
       \<and> snd (snd (simple_app cfg inc (idx_route cfg rt provider))) = []
       \<and> snd (snd (simple_app cfg inc (p1_route cfg rt provider))) = []
       \<and> snd (snd (p0_app cfg rt inc (p0_route cfg rt provider))) = []"
proof -
  from assms have post: "in_method inc \<noteq> ''OPTIONS''"
    and empty: "\<And>b. hdr_x_api_key (parsed_request inc b) \<noteq> Some (API_SECRET_KEY cfg)
                \<or> hdr_x_api_key (parsed_request inc b) = Some []"
    by (auto simp: parsed_request_def)
  have key: "\<And>b. hdr_x_api_key (parsed_request inc b) = Some []"
    using assms(2) by (simp add: parsed_request_def)
  have a: "\<forall>b. in_body inc = Parsed b \<longrightarrow>
            snd (simple_app cfg inc (idx_route cfg rt provider)) =
              (\<lparr>status = 401, content = JObj [(''error'', JStr ''Unauthorized: Invalid API key'')]\<rparr>, [])
          \<and> snd (simple_app cfg inc (p1_route cfg rt provider)) =
              (\<lparr>status = 401, content = JObj [(''error'', JStr ''Unauthorized: Invalid API key'')]\<rparr>, [])"
    using post by (simp add: simple_app_parsed routes_reject [OF empty])
  have b: "\<forall>b. in_body inc = Parsed b \<and> origin_callback cfg rt (in_origin inc) = None \<longrightarrow>
            snd (p0_app cfg rt inc (p0_route cfg rt provider)) =
              (\<lparr>status = 401,
                content = JObj [(''error'', JStr ''Unauthorized: API key is required''),
                                (''status'', JStr ''error''),
                                (''timestamp'', JStr (now rt))]\<rparr>, [])"
    using post by (simp add: p0_app_parsed routes_reject [OF empty] key)
  have nocall: "\<And>req. hdr_x_api_key req = Some [] \<Longrightarrow>
      snd (idx_route cfg rt provider req) = [] \<and> snd (p1_route cfg rt provider req) = []
      \<and> snd (p0_route cfg rt provider req) = []"
    by (simp add: routes_reject)
  have c: "snd (snd (simple_app cfg inc (idx_route cfg rt provider))) = []"
    and d: "snd (snd (simple_app cfg inc (p1_route cfg rt provider))) = []"
    and e: "snd (snd (p0_app cfg rt inc (p0_route cfg rt provider))) = []"
    using nocall assms(2)
    by (auto simp: simple_app_def p0_app_def Let_def parsed_request_def
        split: body_parse.splits prod.splits step.splits gate.splits)
  from a b c d e show ?thesis by blast
qed

theorem empty_key_unauthorized_witness:
  "snd (simple_app \<lparr>API_SECRET_KEY = [], ALLOWED_ORIGINS = [''https://kenyaonabudgetsafaris.co.uk''], NODE_ENV = None\<rparr>
     \<lparr>in_method = ''POST'', in_origin = None, in_x_api_key = Some [],
      in_body = Parsed [(''to'', JStr ''a@x.com''), (''subject'', JStr ''Hi''), (''html'', JStr ''<p>hi</p>'')]\<rparr>
     (idx_route \<lparr>API_SECRET_KEY = [], ALLOWED_ORIGINS = [''https://kenyaonabudgetsafaris.co.uk''], NODE_ENV = None\<rparr>
        \<lparr>now = ''2024-05-01T10:00:00.000Z'', trace = []\<rparr> (\<lambda>r. Resolved JNull)))
   = (\<lparr>status = 401, content = JObj [(''error'', JStr ''Unauthorized: Invalid API key'')]\<rparr>, [])
   \<and> snd (p0_app (p0_config \<lparr>env_API_SECRET_KEY = Some [], env_ALLOWED_ORIGINS = None, env_NODE_ENV = None\<rparr>)
     \<lparr>now = ''2024-05-01T10:00:00.000Z'', trace = []\<rparr>
     \<lparr>in_method = ''POST'', in_origin = None, in_x_api_key = Some [],
      in_body = Parsed [(''to'', JStr ''a@x.com''), (''subject'', JStr ''Hi''), (''html'', JStr ''<p>hi</p>'')]\<rparr>
     (p0_route (p0_config \<lparr>env_API_SECRET_KEY = Some [], env_ALLOWED_ORIGINS = None, env_NODE_ENV = None\<rparr>)
        \<lparr>now = ''2024-05-01T10:00:00.000Z'', trace = []\<rparr> (\<lambda>r. Resolved JNull)))
   = (\<lparr>status = 401,
       content = JObj [(''error'', JStr ''Unauthorized: API key is required''),
                       (''status'', JStr ''error''),
                       (''timestamp'', JStr ''2024-05-01T10:00:00.000Z'')]\<rparr>, [])"
  using empty_key_unauthorized
      [where inc = "\<lparr>in_method = ''POST'', in_origin = None, in_x_api_key = Some [],
        in_body = Parsed [(''to'', JStr ''a@x.com''), (''subject'', JStr ''Hi''), (''html'', JStr ''<p>hi</p>'')]\<rparr>"
        and cfg = "\<lparr>API_SECRET_KEY = [], ALLOWED_ORIGINS = [''https://kenyaonabudgetsafaris.co.uk''], NODE_ENV = None\<rparr>"
        and rt = "\<lparr>now = ''2024-05-01T10:00:00.000Z'', trace = []\<rparr>" and provider = "\<lambda>r. Resolved JNull"]
      empty_key_unauthorized
      [where inc = "\<lparr>in_method = ''POST'', in_origin = None, in_x_api_key = Some [],
        in_body = Parsed [(''to'', JStr ''a@x.com''), (''subject'', JStr ''Hi''), (''html'', JStr ''<p>hi</p>'')]\<rparr>"
        and cfg = "p0_config \<lparr>env_API_SECRET_KEY = Some [], env_ALLOWED_ORIGINS = None, env_NODE_ENV = None\<rparr>"
        and rt = "\<lparr>now = ''2024-05-01T10:00:00.000Z'', trace = []\<rparr>" and provider = "\<lambda>r. Resolved JNull"]
  by (simp add: origin_callback_def header_def)

text \<open>C10 as stated fails on two requests with an empty key: in \<^verbatim>\<open>part_000\<close> a request from
  an origin that is not listed is answered 500 by the error handler, and in \<^verbatim>\<open>part_001\<close> a
  request whose body does not parse is answered 400 by Express.\<close>

theorem empty_key_gate_counterexample:
  "snd (p0_app (p0_config \<lparr>env_API_SECRET_KEY = Some [], env_ALLOWED_ORIGINS = None, env_NODE_ENV = None\<rparr>)
     \<lparr>now = ''2024-05-01T10:00:00.000Z'', trace = []\<rparr>
     \<lparr>in_method = ''POST'', in_origin = Some ''https://evil.example'', in_x_api_key = Some [],
      in_body = Parsed [(''to'', JStr ''a@x.com''), (''subject'', JStr ''Hi''), (''html'', JStr ''<p>hi</p>'')]\<rparr>
     (p0_route (p0_config \<lparr>env_API_SECRET_KEY = Some [], env_ALLOWED_ORIGINS = None, env_NODE_ENV = None\<rparr>)
        \<lparr>now = ''2024-05-01T10:00:00.000Z'', trace = []\<rparr> (\<lambda>r. Resolved JNull)))
   = (\<lparr>status = 500,
       content = JObj [(''error'', JStr ''Internal Server Error''),
                       (''message'', JStr ''An unexpected error occurred''),
                       (''stack'', JUndefined),
                       (''timestamp'', JStr ''2024-05-01T10:00:00.000Z'')]\<rparr>, [])
   \<and> snd (simple_app (idx_config \<lparr>env_API_SECRET_KEY = Some [], env_ALLOWED_ORIGINS = None, env_NODE_ENV = None\<rparr>)
     \<lparr>in_method = ''POST'', in_origin = None, in_x_api_key = Some [],
      in_body = Unparsable 400 \<lparr>message = ''Unexpected token } in JSON at position 1'', stack = [],
                                code = None, response = None\<rparr>\<rparr>
     (p1_route (idx_config \<lparr>env_API_SECRET_KEY = Some [], env_ALLOWED_ORIGINS = None, env_NODE_ENV = None\<rparr>)
        \<lparr>now = ''2024-05-01T10:00:00.000Z'', trace = []\<rparr> (\<lambda>r. Resolved JNull)))
   = (\<lparr>status = 400, content = JUndefined\<rparr>, [])"
  by code_simp

text \<open>
  C5, as the code has it. In \<^verbatim>\<open>part_000\<close> a request without the header is rejected with
  \<^verbatim>\<open>Unauthorized: API key is required\<close> and a request with a non-empty key that differs
  from the secret with \<^verbatim>\<open>Unauthorized: Invalid API key\<close>: two distinct messages, both with
  status 401. In \<^verbatim>\<open>index.js\<close> and \<^verbatim>\<open>part_001\<close> both requests get the one message
  \<^verbatim>\<open>Unauthorized: Invalid API key\<close>.
\<close>

theorem credential_messages:
  assumes "hdr_x_api_key absent = None"
    and "hdr_x_api_key wrong = Some k" and "k \<noteq> []" and "k \<noteq> API_SECRET_KEY cfg"
  shows "p0_validateApiKey cfg rt absent =
           Reply \<lparr>status = 401,
                  content = JObj [(''error'', JStr ''Unauthorized: API key is required''),
                                  (''status'', JStr ''error''),
                                  (''timestamp'', JStr (now rt))]\<rparr>
       \<and> p0_validateApiKey cfg rt wrong =
           Reply \<lparr>status = 401,
                  content = JObj [(''error'', JStr ''Unauthorized: Invalid API key''),
                                  (''status'', JStr ''error''),
                                  (''timestamp'', JStr (now rt))]\<rparr>
       \<and> validateApiKey cfg absent =
           Reply \<lparr>status = 401, content = JObj [(''error'', JStr ''Unauthorized: Invalid API key'')]\<rparr>
       \<and> validateApiKey cfg wrong =
           Reply \<lparr>status = 401, content = JObj [(''error'', JStr ''Unauthorized: Invalid API key'')]\<rparr>"
  using assms by (simp add: validateApiKey_cases p0_validateApiKey_cases)

theorem credential_messages_witness:
  "p0_validateApiKey (p0_config \<lparr>env_API_SECRET_KEY = None, env_ALLOWED_ORIGINS = None, env_NODE_ENV = None\<rparr>)
      \<lparr>now = ''2024-05-01T10:00:00.000Z'', trace = []\<rparr>
      \<lparr>req_method = ''POST'', hdr_origin = None, hdr_x_api_key = None, req_body = []\<rparr> =
     Reply \<lparr>status = 401,
            content = JObj [(''error'', JStr ''Unauthorized: API key is required''),
                            (''status'', JStr ''error''),
                            (''timestamp'', JStr ''2024-05-01T10:00:00.000Z'')]\<rparr>
   \<and> p0_validateApiKey (p0_config \<lparr>env_API_SECRET_KEY = None, env_ALLOWED_ORIGINS = None, env_NODE_ENV = None\<rparr>)
      \<lparr>now = ''2024-05-01T10:00:00.000Z'', trace = []\<rparr>
      \<lparr>req_method = ''POST'', hdr_origin = None, hdr_x_api_key = Some ''guess'', req_body = []\<rparr> =
     Reply \<lparr>status = 401,
            content = JObj [(''error'', JStr ''Unauthorized: Invalid API key''),
                            (''status'', JStr ''error''),
                            (''timestamp'', JStr ''2024-05-01T10:00:00.000Z'')]\<rparr>"
  using credential_messages
    [where absent = "\<lparr>req_method = ''POST'', hdr_origin = None, hdr_x_api_key = None, req_body = []\<rparr>"
       and wrong = "\<lparr>req_method = ''POST'', hdr_origin = None, hdr_x_api_key = Some ''guess'', req_body = []\<rparr>"
       and k = "''guess''"
       and cfg = "p0_config \<lparr>env_API_SECRET_KEY = None, env_ALLOWED_ORIGINS = None, env_NODE_ENV = None\<rparr>"
       and rt = "\<lparr>now = ''2024-05-01T10:00:00.000Z'', trace = []\<rparr>"]
  by (simp add: p0_config_def or_default_def)

text \<open>C5 as stated fails in \<^verbatim>\<open>index.js\<close>: with the default configuration the request without a
  key and the request with a wrong key receive the same error message.\<close>

theorem same_message_counterexample:
  "js_get (content (fst (idx_route (idx_config \<lparr>env_API_SECRET_KEY = None, env_ALLOWED_ORIGINS = None, env_NODE_ENV = None\<rparr>)
      \<lparr>now = ''2024-05-01T10:00:00.000Z'', trace = []\<rparr> (\<lambda>r. Resolved JNull)
      \<lparr>req_method = ''POST'', hdr_origin = None, hdr_x_api_key = None, req_body = []\<rparr>))) ''error''
   = JStr ''Unauthorized: Invalid API key''
   \<and> js_get (content (fst (idx_route (idx_config \<lparr>env_API_SECRET_KEY = None, env_ALLOWED_ORIGINS = None, env_NODE_ENV = None\<rparr>)
      \<lparr>now = ''2024-05-01T10:00:00.000Z'', trace = []\<rparr> (\<lambda>r. Resolved JNull)
      \<lparr>req_method = ''POST'', hdr_origin = None, hdr_x_api_key = Some ''guess'', req_body = []\<rparr>))) ''error''
   = JStr ''Unauthorized: Invalid API key''"
  by (simp add: idx_route_def validateApiKey_cases idx_config_def or_default_def field_def)

section \<open>Properties of the payload validation\<close>

text \<open>
  C1, as the code has it. When one of the fields \<^verbatim>\<open>to\<close>, \<^verbatim>\<open>subject\<close>, \<^verbatim>\<open>html\<close> of the body is
  missing (undefined) or holds a value that is falsy in JavaScript (null, false, 0 or the
  empty string), the handler replies with status 400, \<^verbatim>\<open>success: false\<close> and the error
  \<^verbatim>\<open>Missing required fields (to, subject, html)\<close>, and the provider is not invoked. This
  holds in all three variants and for every provider. On the route, where the credential
  check comes first, the provider is not invoked for such a request either, whatever its
  key.
\<close>

theorem missing_field_rejected:
  assumes "\<exists>k \<in> {''to'', ''subject'', ''html''}.
             field (req_body req) k \<in> {JUndefined, JNull, JBool False, JNum 0, JStr []}"
  shows "idx_handler rt provider req =
           (\<lparr>status = 400,
             content = JObj [(''success'', JBool False),
                             (''error'', JStr ''Missing required fields (to, subject, html)'')]\<rparr>, [])
       \<and> p0_handler cfg rt provider req =
           (\<lparr>status = 400,
             content = JObj [(''success'', JBool False),
                             (''error'', JStr ''Missing required fields (to, subject, html)''),
                             (''timestamp'', JStr (now rt))]\<rparr>, [])
       \<and> p1_handler rt provider req =
           (\<lparr>status = 400,
             content = JObj [(''success'', JBool False),
                             (''error'', JStr ''Missing required fields (to, subject, html)'')]\<rparr>, [])
       \<and> snd (idx_route cfg rt provider req) = []
       \<and> snd (p0_route cfg rt provider req) = []
       \<and> snd (p1_route cfg rt provider req) = []"
proof -
  from assms have falsy: "\<not> truthy (field (req_body req) ''to'')
      \<or> \<not> truthy (field (req_body req) ''subject'')
      \<or> \<not> truthy (field (req_body req) ''html'')"
    by (auto simp: falsy_cases)
  then have handlers: "idx_handler rt provider req =
           (\<lparr>status = 400,
             content = JObj [(''success'', JBool False),
                             (''error'', JStr ''Missing required fields (to, subject, html)'')]\<rparr>, [])
       \<and> p0_handler cfg rt provider req =
           (\<lparr>status = 400,
             content = JObj [(''success'', JBool False),
                             (''error'', JStr ''Missing required fields (to, subject, html)''),
                             (''timestamp'', JStr (now rt))]\<rparr>, [])
       \<and> p1_handler rt provider req =
           (\<lparr>status = 400,
             content = JObj [(''success'', JBool False),
                             (''error'', JStr ''Missing required fields (to, subject, html)'')]\<rparr>, [])"
    by (auto simp: idx_handler_def p0_handler_def p1_handler_def Let_def)
  then have "snd (idx_route cfg rt provider req) = []"
    and "snd (p0_route cfg rt provider req) = []"
    and "snd (p1_route cfg rt provider req) = []"
    by (simp_all add: idx_route_def p0_route_def p1_route_def split: step.splits)
  with handlers show ?thesis by simp
qed

theorem missing_field_rejected_witness:
  "field [(''to'', JStr ''a@x.com''), (''html'', JStr ''<p>hi</p>'')] ''subject'' = JUndefined
   \<and> p0_handler (p0_config \<lparr>env_API_SECRET_KEY = None, env_ALLOWED_ORIGINS = None, env_NODE_ENV = None\<rparr>)
       \<lparr>now = ''2024-05-01T10:00:00.000Z'', trace = []\<rparr> (\<lambda>r. Resolved JNull)
       \<lparr>req_method = ''POST'', hdr_origin = None, hdr_x_api_key = Some ''thiswillbesecretkey45'',
        req_body = [(''to'', JStr ''a@x.com''), (''html'', JStr ''<p>hi</p>'')]\<rparr>
     = (\<lparr>status = 400,
             content = JObj [(''success'', JBool False),
                             (''error'', JStr ''Missing required fields (to, subject, html)''),
                             (''timestamp'', JStr ''2024-05-01T10:00:00.000Z'')]\<rparr>, [])"
  using missing_field_rejected
    [where req = "\<lparr>req_method = ''POST'', hdr_origin = None, hdr_x_api_key = Some ''thiswillbesecretkey45'',
        req_body = [(''to'', JStr ''a@x.com''), (''html'', JStr ''<p>hi</p>'')]\<rparr>"
       and rt = "\<lparr>now = ''2024-05-01T10:00:00.000Z'', trace = []\<rparr>" and provider = "\<lambda>r. Resolved JNull"
       and cfg = "p0_config \<lparr>env_API_SECRET_KEY = None, env_ALLOWED_ORIGINS = None, env_NODE_ENV = None\<rparr>"]
  by (simp add: field_def)

text \<open>C1 as stated fails for an empty value that is not falsy: a body whose \<^verbatim>\<open>to\<close> is the
  empty array passes the validation in all three variants; the provider is invoked and the
  reply is 200.\<close>

theorem empty_recipient_list_counterexample:
  "p0_handler (p0_config \<lparr>env_API_SECRET_KEY = None, env_ALLOWED_ORIGINS = None, env_NODE_ENV = None\<rparr>)
      \<lparr>now = ''2024-05-01T10:00:00.000Z'', trace = []\<rparr> (\<lambda>r. Resolved JNull)
      \<lparr>req_method = ''POST'', hdr_origin = None, hdr_x_api_key = Some ''thiswillbesecretkey45'',
       req_body = [(''to'', JArr []), (''subject'', JStr ''Hi''), (''html'', JStr ''<p>hi</p>'')]\<rparr>
   = (\<lparr>status = 200,
       content = JObj [(''success'', JBool True),
                       (''message'', JStr ''Email sent successfully''),
                       (''data'', JNull),
                       (''timestamp'', JStr ''2024-05-01T10:00:00.000Z'')]\<rparr>,
      [JObj [(''sender'', JObj [(''email'', JStr ''info@kenyaonabudgetsafaris.co.uk''),
                                (''name'', JStr ''KenyaOnABudget Safaris'')]),
             (''to'', JArr []),
             (''cc'', JUndefined),
             (''subject'', JStr ''Hi''),
             (''htmlContent'', JStr ''<p>hi</p>'')]])
   \<and> idx_handler \<lparr>now = ''2024-05-01T10:00:00.000Z'', trace = []\<rparr> (\<lambda>r. Resolved JNull)
      \<lparr>req_method = ''POST'', hdr_origin = None, hdr_x_api_key = Some ''your-secret-key-here'',
       req_body = [(''to'', JArr []), (''subject'', JStr ''Hi''), (''html'', JStr ''<p>hi</p>'')]\<rparr>
   = (\<lparr>status = 200,
       content = JObj [(''success'', JBool True),
                       (''message'', JStr ''Email sent successfully''),
                       (''data'', JNull)]\<rparr>,
      [JObj [(''sender'', JObj [(''email'', JStr ''info@kenyaonabudgetsafaris.co.uk''),
                                (''name'', JStr ''KenyaOnABudget Safaris'')]),
             (''to'', JArr [JObj [(''email'', JArr [])]]),
             (''cc'', JUndefined),
             (''subject'', JStr ''Hi''),
             (''htmlContent'', JStr ''<p>hi</p>'')]])
   \<and> p1_handler \<lparr>now = ''2024-05-01T10:00:00.000Z'', trace = []\<rparr> (\<lambda>r. Resolved JNull)
      \<lparr>req_method = ''POST'', hdr_origin = None, hdr_x_api_key = Some ''your-secret-key-here'',
       req_body = [(''to'', JArr []), (''subject'', JStr ''Hi''), (''html'', JStr ''<p>hi</p>'')]\<rparr>
   = (\<lparr>status = 200,
       content = JObj [(''success'', JBool True),
                       (''message'', JStr ''Email sent successfully'')]\<rparr>,
      [JObj [(''to'', JArr []),
             (''from'', JStr ''info@kenyaonabudgetsafaris.co.uk''),
             (''subject'', JStr ''Hi''),
             (''html'', JStr ''<p>hi</p>'')]])"
  by code_simp

section \<open>Properties of the send request\<close>

text \<open>A request that passes the validation is handed to the provider exactly once, whatever
  the provider answers.\<close>

lemma idx_calls:
  assumes "truthy (field (req_body req) ''to'')" "truthy (field (req_body req) ''subject'')"
    "truthy (field (req_body req) ''html'')"
  shows "snd (idx_handler rt provider req) = [idx_sendEmailRequest req]"
  using assms by (simp add: idx_handler_def Let_def split: provider_result.splits)

lemma p0_calls:
  assumes "truthy (field (req_body req) ''to'')" "truthy (field (req_body req) ''subject'')"
    "truthy (field (req_body req) ''html'')"
  shows "snd (p0_handler cfg rt provider req) = [p0_sendEmailRequest req]"
  using assms by (simp add: p0_handler_def Let_def split: provider_result.splits)

lemma p1_calls:
  assumes "truthy (field (req_body req) ''to'')" "truthy (field (req_body req) ''subject'')"
    "truthy (field (req_body req) ''html'')"
  shows "snd (p1_handler rt provider req) = [p1_msg req]"
  using assms by (simp add: p1_handler_def Let_def split: provider_result.splits)

lemma ccRecipients_cases:
  "ccRecipients cc = (case cc of JArr (c # cs) \<Rightarrow> map address (c # cs) | _ \<Rightarrow> [])"
  by (auto simp: ccRecipients_def split: jsval.splits list.splits)

lemma brevo_cc:
  "(if length (ccRecipients cc) > 0 then JArr (ccRecipients cc) else JUndefined) =
     (case cc of JArr (c # cs) \<Rightarrow> JArr (map (\<lambda>a. JObj [(''email'', a)]) (c # cs)) | _ \<Rightarrow> JUndefined)"
  by (auto simp: ccRecipients_cases address_def split: jsval.splits list.splits)

text \<open>A property whose value is undefined is left out when the send request is serialised.\<close>

lemma undefined_cc_not_serialised:
  "json_stringify (JObj [(''sender'', s), (''to'', t), (''cc'', JUndefined), (''subject'', u), (''htmlContent'', h)])
   = json_stringify (JObj [(''sender'', s), (''to'', t), (''subject'', u), (''htmlContent'', h)])"
  by simp

text \<open>
  C7. For a request that passes the validation, the one send request handed to the provider
  has no \<^verbatim>\<open>cc\<close> (reading the property gives undefined) when the \<^verbatim>\<open>cc\<close> of the body is
  absent, is not an array or is the empty array. When it is a non-empty array, the send
  request has a \<^verbatim>\<open>cc\<close> list with exactly its elements in their order: wrapped one by one as
  \<^verbatim>\<open>{email: c}\<close> for Brevo (\<^verbatim>\<open>index.js\<close>, \<^verbatim>\<open>part_000\<close>), as they are for SendGrid
  (\<^verbatim>\<open>part_001\<close>). In the Brevo variants the property is written with the value undefined,
  which serialisation leaves out; in \<^verbatim>\<open>part_001\<close> the property is not written.
\<close>

theorem cc_forwarding:
  assumes "truthy (field (req_body req) ''to'')" "truthy (field (req_body req) ''subject'')"
    "truthy (field (req_body req) ''html'')"
  shows "snd (idx_handler rt provider req) = [idx_sendEmailRequest req]
       \<and> js_get (idx_sendEmailRequest req) ''cc'' =
           (case field (req_body req) ''cc'' of
              JArr (c # cs) \<Rightarrow> JArr (map (\<lambda>a. JObj [(''email'', a)]) (c # cs))
            | _ \<Rightarrow> JUndefined)
       \<and> snd (p0_handler cfg rt provider req) = [p0_sendEmailRequest req]
       \<and> js_get (p0_sendEmailRequest req) ''cc'' =
           (case field (req_body req) ''cc'' of
              JArr (c # cs) \<Rightarrow> JArr (map (\<lambda>a. JObj [(''email'', a)]) (c # cs))
            | _ \<Rightarrow> JUndefined)
       \<and> snd (p1_handler rt provider req) = [p1_msg req]
       \<and> js_get (p1_msg req) ''cc'' =
           (case field (req_body req) ''cc'' of JArr (c # cs) \<Rightarrow> JArr (c # cs) | _ \<Rightarrow> JUndefined)"
proof -
  have a: "js_get (idx_sendEmailRequest req) ''cc'' =
           (case field (req_body req) ''cc'' of
              JArr (c # cs) \<Rightarrow> JArr (map (\<lambda>a. JObj [(''email'', a)]) (c # cs))
            | _ \<Rightarrow> JUndefined)"
    unfolding idx_sendEmailRequest_def Let_def brevo_cc by (simp add: field_def)
  have b: "js_get (p0_sendEmailRequest req) ''cc'' =
           (case field (req_body req) ''cc'' of
              JArr (c # cs) \<Rightarrow> JArr (map (\<lambda>a. JObj [(''email'', a)]) (c # cs))
            | _ \<Rightarrow> JUndefined)"
    unfolding p0_sendEmailRequest_def Let_def brevo_cc by (simp add: field_def)
  have c: "js_get (p1_msg req) ''cc'' =
           (case field (req_body req) ''cc'' of JArr (c # cs) \<Rightarrow> JArr (c # cs) | _ \<Rightarrow> JUndefined)"
    by (cases "field (req_body req) ''cc''")
       (auto simp: p1_msg_def Let_def field_def [of "_ # _"] split: list.splits)
  from a b c idx_calls [OF assms] p0_calls [OF assms] p1_calls [OF assms]
  show ?thesis by blast
qed

theorem cc_forwarding_witness:
  "js_get (idx_sendEmailRequest
      \<lparr>req_method = ''POST'', hdr_origin = None, hdr_x_api_key = Some ''k'',
       req_body = [(''to'', JStr ''a@x.com''), (''subject'', JStr ''Hi''), (''html'', JStr ''<p>hi</p>''),
                   (''cc'', JArr [JStr ''c@x.com'', JStr ''d@x.com''])]\<rparr>) ''cc''
     = JArr [JObj [(''email'', JStr ''c@x.com'')], JObj [(''email'', JStr ''d@x.com'')]]
   \<and> js_get (p1_msg
      \<lparr>req_method = ''POST'', hdr_origin = None, hdr_x_api_key = Some ''k'',
       req_body = [(''to'', JStr ''a@x.com''), (''subject'', JStr ''Hi''), (''html'', JStr ''<p>hi</p>''),
                   (''cc'', JArr [JStr ''c@x.com'', JStr ''d@x.com''])]\<rparr>) ''cc''
     = JArr [JStr ''c@x.com'', JStr ''d@x.com'']
   \<and> js_get (p0_sendEmailRequest
      \<lparr>req_method = ''POST'', hdr_origin = None, hdr_x_api_key = Some ''k'',
       req_body = [(''to'', JStr ''a@x.com''), (''subject'', JStr ''Hi''), (''html'', JStr ''<p>hi</p>''),
                   (''cc'', JArr [])]\<rparr>) ''cc''
     = JUndefined"
  using cc_forwarding
    [where req = "\<lparr>req_method = ''POST'', hdr_origin = None, hdr_x_api_key = Some ''k'',
       req_body = [(''to'', JStr ''a@x.com''), (''subject'', JStr ''Hi''), (''html'', JStr ''<p>hi</p>''),
                   (''cc'', JArr [JStr ''c@x.com'', JStr ''d@x.com''])]\<rparr>"]
    cc_forwarding
    [where req = "\<lparr>req_method = ''POST'', hdr_origin = None, hdr_x_api_key = Some ''k'',
       req_body = [(''to'', JStr ''a@x.com''), (''subject'', JStr ''Hi''), (''html'', JStr ''<p>hi</p>''),
                   (''cc'', JArr [])]\<rparr>"]
  by (simp add: field_def)

text \<open>
  C4, as the code has it. For a request that passes the validation, \<^verbatim>\<open>part_000\<close> turns a
  \<^verbatim>\<open>to\<close> that is an array into the list of its elements wrapped one by one as
  \<^verbatim>\<open>{email: s}\<close>, in the same order, and any other \<^verbatim>\<open>to\<close> (a single string) into the
  one-element list \<^verbatim>\<open>[{email: to}]\<close>. \<^verbatim>\<open>index.js\<close> always builds the one-element list
  \<^verbatim>\<open>[{email: to}]\<close>, whatever \<^verbatim>\<open>to\<close> is; \<^verbatim>\<open>part_001\<close> passes \<^verbatim>\<open>to\<close> on unchanged.
\<close>

theorem recipients_shape:
  assumes "truthy (field (req_body req) ''to'')" "truthy (field (req_body req) ''subject'')"
    "truthy (field (req_body req) ''html'')"
  shows "snd (p0_handler cfg rt provider req) = [p0_sendEmailRequest req]
       \<and> js_get (p0_sendEmailRequest req) ''to'' =
           (case field (req_body req) ''to'' of
              JArr xs \<Rightarrow> JArr (map (\<lambda>s. JObj [(''email'', s)]) xs)
            | v \<Rightarrow> JArr [JObj [(''email'', v)]])
       \<and> snd (idx_handler rt provider req) = [idx_sendEmailRequest req]
       \<and> js_get (idx_sendEmailRequest req) ''to'' = JArr [JObj [(''email'', field (req_body req) ''to'')]]
       \<and> snd (p1_handler rt provider req) = [p1_msg req]
       \<and> js_get (p1_msg req) ''to'' = field (req_body req) ''to''"
proof -
  have a: "js_get (p0_sendEmailRequest req) ''to'' =
           (case field (req_body req) ''to'' of
              JArr xs \<Rightarrow> JArr (map (\<lambda>s. JObj [(''email'', s)]) xs)
            | v \<Rightarrow> JArr [JObj [(''email'', v)]])"
    by (cases "field (req_body req) ''to''")
       (simp_all add: p0_sendEmailRequest_def Let_def field_def [of "_ # _"] address_def)
  have b: "js_get (idx_sendEmailRequest req) ''to'' = JArr [JObj [(''email'', field (req_body req) ''to'')]]"
    by (simp add: idx_sendEmailRequest_def Let_def field_def [of "_ # _"] address_def)
  have c: "js_get (p1_msg req) ''to'' = field (req_body req) ''to''"
    by (simp add: p1_msg_def Let_def field_def [of "_ # _"])
  from a b c idx_calls [OF assms] p0_calls [OF assms] p1_calls [OF assms]
  show ?thesis by blast
qed

theorem recipients_shape_witness:
  "js_get (p0_sendEmailRequest
      \<lparr>req_method = ''POST'', hdr_origin = None, hdr_x_api_key = Some ''k'',
       req_body = [(''to'', JArr [JStr ''a@x.com'', JStr ''b@x.com'']), (''subject'', JStr ''Hi''),
                   (''html'', JStr ''<p>hi</p>'')]\<rparr>) ''to''
     = JArr [JObj [(''email'', JStr ''a@x.com'')], JObj [(''email'', JStr ''b@x.com'')]]
   \<and> js_get (p0_sendEmailRequest
      \<lparr>req_method = ''POST'', hdr_origin = None, hdr_x_api_key = Some ''k'',
       req_body = [(''to'', JStr ''a@x.com''), (''subject'', JStr ''Hi''),
                   (''html'', JStr ''<p>hi</p>'')]\<rparr>) ''to''
     = JArr [JObj [(''email'', JStr ''a@x.com'')]]"
  using recipients_shape
    [where req = "\<lparr>req_method = ''POST'', hdr_origin = None, hdr_x_api_key = Some ''k'',
       req_body = [(''to'', JArr [JStr ''a@x.com'', JStr ''b@x.com'']), (''subject'', JStr ''Hi''),
                   (''html'', JStr ''<p>hi</p>'')]\<rparr>"]
    recipients_shape
    [where req = "\<lparr>req_method = ''POST'', hdr_origin = None, hdr_x_api_key = Some ''k'',
       req_body = [(''to'', JStr ''a@x.com''), (''subject'', JStr ''Hi''),
                   (''html'', JStr ''<p>hi</p>'')]\<rparr>"]
  by (simp add: field_def)

text \<open>C4 as stated fails in \<^verbatim>\<open>index.js\<close>: a list of two addresses becomes one object whose
  \<^verbatim>\<open>email\<close> is the whole list, not two objects.\<close>

theorem recipient_list_counterexample:
  "map (\<lambda>r. js_get r ''to'')
     (snd (idx_handler \<lparr>now = ''2024-05-01T10:00:00.000Z'', trace = []\<rparr> (\<lambda>r. Resolved JNull)
        \<lparr>req_method = ''POST'', hdr_origin = None, hdr_x_api_key = Some ''your-secret-key-here'',
         req_body = [(''to'', JArr [JStr ''a@x.com'', JStr ''b@x.com'']), (''subject'', JStr ''Hi''),
                     (''html'', JStr ''<p>hi</p>'')]\<rparr>))
     = [JArr [JObj [(''email'', JArr [JStr ''a@x.com'', JStr ''b@x.com''])]]]
   \<and> map (\<lambda>r. js_get r ''to'')
     (snd (idx_handler \<lparr>now = ''2024-05-01T10:00:00.000Z'', trace = []\<rparr> (\<lambda>r. Resolved JNull)
        \<lparr>req_method = ''POST'', hdr_origin = None, hdr_x_api_key = Some ''your-secret-key-here'',
         req_body = [(''to'', JArr [JStr ''a@x.com'', JStr ''b@x.com'']), (''subject'', JStr ''Hi''),
                     (''html'', JStr ''<p>hi</p>'')]\<rparr>))
     \<noteq> [JArr [JObj [(''email'', JStr ''a@x.com'')], JObj [(''email'', JStr ''b@x.com'')]]]"
  by (simp add: idx_handler_def idx_sendEmailRequest_def Let_def field_def address_def)

section \<open>Properties of the failure mapping\<close>

text \<open>What \<^verbatim>\<open>part_000\<close> serialises is truthy, so its serialisation is never undefined.\<close>

lemma stringify_truthy: "truthy v \<Longrightarrow> \<exists>s. json_stringify v = Some s"
  by (cases v) auto

text \<open>
  C8, as the code has it. For a request that passes the validation and on which the
  provider call fails, every variant replies with status 500 and \<^verbatim>\<open>success: false\<close>. When
  the failure carries a response, the error string is, in \<^verbatim>\<open>part_001\<close>,
  \<^verbatim>\<open>SendGrid error (<code>): \<close> followed by the serialised response body; in \<^verbatim>\<open>index.js\<close>,
  \<^verbatim>\<open>Brevo error: \<close> followed by the serialised response text; in \<^verbatim>\<open>part_000\<close>,
  \<^verbatim>\<open>Brevo API error: \<close> followed by the serialised response text, or body when the text is
  falsy, or \<^verbatim>\<open>Unknown API error\<close> when both are. When the failure carries no response,
  the error string is the raw message.
\<close>

theorem provider_failure_reply:
  assumes "truthy (field (req_body req) ''to'')" "truthy (field (req_body req) ''subject'')"
    "truthy (field (req_body req) ''html'')"
  shows "(sendTransacEmail (idx_sendEmailRequest req) = Rejected e \<longrightarrow>
            idx_handler rt sendTransacEmail req =
              (\<lparr>status = 500,
                content = JObj
                  [(''success'', JBool False),
                   (''error'', JStr (case response e of
                        None \<Rightarrow> message e
                      | Some r \<Rightarrow> ''Brevo error: '' @ interpolate (json_stringify (res_text r))))]\<rparr>,
               [idx_sendEmailRequest req]))
       \<and> (sendTransacEmail (p0_sendEmailRequest req) = Rejected e \<longrightarrow>
            p0_handler cfg rt sendTransacEmail req =
              (\<lparr>status = 500,
                content = JObj
                  [(''success'', JBool False),
                   (''error'', JStr (case response e of
                        None \<Rightarrow> message e
                      | Some r \<Rightarrow> ''Brevo API error: '' @
                          interpolate (json_stringify
                            (js_or (js_or (res_text r) (res_body r)) (JStr ''Unknown API error''))))),
                   (''stack'', if NODE_ENV cfg = Some ''development'' then JStr (stack e) else JUndefined),
                   (''timestamp'', JStr (now rt))]\<rparr>,
               [p0_sendEmailRequest req]))
       \<and> (send (p1_msg req) = Rejected e \<longrightarrow>
            p1_handler rt send req =
              (\<lparr>status = 500,
                content = JObj
                  [(''success'', JBool False),
                   (''error'', JStr (case response e of
                        None \<Rightarrow> message e
                      | Some r \<Rightarrow> ''SendGrid error ('' @ interpolate (map_option show_num (code e)) @ ''): '' @
                          interpolate (json_stringify (res_body r))))]\<rparr>,
               [p1_msg req]))"
  using assms
  by (simp add: idx_handler_def p0_handler_def p1_handler_def Let_def idx_catch_def p0_catch_def
      p1_catch_def idx_errorMessage_def p0_errorMessage_def p1_errorMessage_def
      split: option.splits)

theorem provider_failure_reply_witness:
  "p1_handler \<lparr>now = ''2024-05-01T10:00:00.000Z'', trace = []\<rparr>
      (\<lambda>m. Rejected \<lparr>message = ''Unauthorized'', stack = [], code = Some 401,
                       response = Some \<lparr>res_status = 401, res_text = JUndefined,
                                        res_body = JObj [(''errors'', JArr [])]\<rparr>\<rparr>)
      \<lparr>req_method = ''POST'', hdr_origin = None, hdr_x_api_key = Some ''k'',
       req_body = [(''to'', JStr ''a@x.com''), (''subject'', JStr ''Hi''), (''html'', JStr ''<p>hi</p>'')]\<rparr>
   = (\<lparr>status = 500,
       content = JObj
         [(''success'', JBool False),
          (''error'', JStr (''SendGrid error (401): {'' @ CHR 0x22 # ''errors'' @ CHR 0x22 # '':[]}''))]\<rparr>,
      [JObj [(''to'', JStr ''a@x.com''), (''from'', JStr ''info@kenyaonabudgetsafaris.co.uk''),
             (''subject'', JStr ''Hi''), (''html'', JStr ''<p>hi</p>'')]])
  \<and> idx_handler \<lparr>now = ''2024-05-01T10:00:00.000Z'', trace = []\<rparr>
      (\<lambda>m. Rejected \<lparr>message = ''getaddrinfo ENOTFOUND api.brevo.com'', stack = [], code = None,
                       response = None\<rparr>)
      \<lparr>req_method = ''POST'', hdr_origin = None, hdr_x_api_key = Some ''k'',
       req_body = [(''to'', JStr ''a@x.com''), (''subject'', JStr ''Hi''), (''html'', JStr ''<p>hi</p>'')]\<rparr>
   = (\<lparr>status = 500,
       content = JObj
         [(''success'', JBool False),
          (''error'', JStr ''getaddrinfo ENOTFOUND api.brevo.com'')]\<rparr>,
      [JObj [(''sender'', JObj [(''email'', JStr ''info@kenyaonabudgetsafaris.co.uk''),
                                (''name'', JStr ''KenyaOnABudget Safaris'')]),
             (''to'', JArr [JObj [(''email'', JStr ''a@x.com'')]]),
             (''cc'', JUndefined),
             (''subject'', JStr ''Hi''), (''htmlContent'', JStr ''<p>hi</p>'')]])"
  using provider_failure_reply
    [where req = "\<lparr>req_method = ''POST'', hdr_origin = None, hdr_x_api_key = Some ''k'',
       req_body = [(''to'', JStr ''a@x.com''), (''subject'', JStr ''Hi''), (''html'', JStr ''<p>hi</p>'')]\<rparr>"
      and sendTransacEmail = "\<lambda>m. Rejected \<lparr>message = ''getaddrinfo ENOTFOUND api.brevo.com'', stack = [], code = None,
                       response = None\<rparr>"
      and e = "\<lparr>message = ''getaddrinfo ENOTFOUND api.brevo.com'', stack = [], code = None,
                       response = None\<rparr>"
      and rt = "\<lparr>now = ''2024-05-01T10:00:00.000Z'', trace = []\<rparr>"]
   provider_failure_reply
    [where req = "\<lparr>req_method = ''POST'', hdr_origin = None, hdr_x_api_key = Some ''k'',
       req_body = [(''to'', JStr ''a@x.com''), (''subject'', JStr ''Hi''), (''html'', JStr ''<p>hi</p>'')]\<rparr>"
      and send = "\<lambda>m. Rejected \<lparr>message = ''Unauthorized'', stack = [], code = Some 401,
                       response = Some \<lparr>res_status = 401, res_text = JUndefined,
                                        res_body = JObj [(''errors'', JArr [])]\<rparr>\<rparr>"
      and e = "\<lparr>message = ''Unauthorized'', stack = [], code = Some 401,
                       response = Some \<lparr>res_status = 401, res_text = JUndefined,
                                        res_body = JObj [(''errors'', JArr [])]\<rparr>\<rparr>"
      and rt = "\<lparr>now = ''2024-05-01T10:00:00.000Z'', trace = []\<rparr>"]
  by (simp add: field_def idx_sendEmailRequest_def p1_msg_def interpolate_def show_num_def show_int_def
       json_quote_def json_escape_def digit_char_def Let_def sender_def address_def ccRecipients_def js_or_def)

text \<open>C8 as stated fails in \<^verbatim>\<open>index.js\<close> and in \<^verbatim>\<open>part_000\<close>: for a failure whose response
  has status 500 and the text \<^verbatim>\<open>upstream failure\<close>, the error string is the prefix and the
  quoted text; the status does not occur in it.\<close>

theorem brevo_error_counterexample:
  "fst (idx_handler \<lparr>now = ''2024-05-01T10:00:00.000Z'', trace = []\<rparr>
      (\<lambda>m. Rejected \<lparr>message = ''Internal Server Error'', stack = [], code = None,
                       response = Some \<lparr>res_status = 500, res_text = JStr ''upstream failure'',
                                        res_body = JObj []\<rparr>\<rparr>)
      \<lparr>req_method = ''POST'', hdr_origin = None, hdr_x_api_key = Some ''your-secret-key-here'',
       req_body = [(''to'', JStr ''a@x.com''), (''subject'', JStr ''Hi''), (''html'', JStr ''<p>hi</p>'')]\<rparr>)
   = \<lparr>status = 500,
      content = JObj
        [(''success'', JBool False),
         (''error'', JStr (''Brevo error: '' @ CHR 0x22 # ''upstream failure'' @ [CHR 0x22]))]\<rparr>
  \<and> \<not> sublist (show_num 500) (''Brevo error: '' @ CHR 0x22 # ''upstream failure'' @ [CHR 0x22])
  \<and> fst (p0_handler (p0_config \<lparr>env_API_SECRET_KEY = None, env_ALLOWED_ORIGINS = None, env_NODE_ENV = None\<rparr>)
      \<lparr>now = ''2024-05-01T10:00:00.000Z'', trace = []\<rparr>
      (\<lambda>m. Rejected \<lparr>message = ''Internal Server Error'', stack = [], code = None,
                       response = Some \<lparr>res_status = 500, res_text = JStr ''upstream failure'',
                                        res_body = JObj []\<rparr>\<rparr>)
      \<lparr>req_method = ''POST'', hdr_origin = None, hdr_x_api_key = Some ''thiswillbesecretkey45'',
       req_body = [(''to'', JStr ''a@x.com''), (''subject'', JStr ''Hi''), (''html'', JStr ''<p>hi</p>'')]\<rparr>)
   = \<lparr>status = 500,
      content = JObj
        [(''success'', JBool False),
         (''error'', JStr (''Brevo API error: '' @ CHR 0x22 # ''upstream failure'' @ [CHR 0x22])),
         (''stack'', JUndefined),
         (''timestamp'', JStr ''2024-05-01T10:00:00.000Z'')]\<rparr>
  \<and> \<not> sublist (show_num 500) (''Brevo API error: '' @ CHR 0x22 # ''upstream failure'' @ [CHR 0x22])"
  by code_simp

section \<open>Properties of the origin check\<close>

lemma cors_middleware_headers:
  "fst (cors_middleware cfg req) =
     (case hdr_origin req of
        None \<Rightarrow> []
      | Some origin \<Rightarrow>
          if origin \<in> set (ALLOWED_ORIGINS cfg)
          then [(''Access-Control-Allow-Origin'', origin),
                (''Access-Control-Allow-Methods'', ''GET, POST, OPTIONS''),
                (''Access-Control-Allow-Headers'', ''Content-Type, Authorization, X-API-Key'')]
          else [])"
  by (simp add: cors_middleware_def Let_def)

lemma simple_app_headers:
  "fst (simple_app cfg inc h) =
     (case in_body inc of
        Parsed b \<Rightarrow> fst (cors_middleware cfg (parsed_request inc b))
      | Unparsable s err \<Rightarrow> [])"
  by (simp add: simple_app_def split: body_parse.splits prod.splits step.splits)

lemma origin_callback_accepts:
  "(origin_callback cfg rt (Some origin) = None) =
     (origin = [] \<or> clean_origin origin \<in> set (ALLOWED_ORIGINS cfg)
      \<or> NODE_ENV cfg = Some ''development'')"
  by (simp add: origin_callback_def header_def Let_def)

lemma p0_app_headers:
  "fst (p0_app cfg rt inc h) =
     (''X-Server-Timestamp'', now rt) #
     (case in_body inc of
        Unparsable s err \<Rightarrow> []
      | Parsed b \<Rightarrow>
          if origin_callback cfg rt (in_origin inc) = None
          then cors_package_headers (parsed_request inc b) else [])"
  by (auto simp: p0_app_def p0_cors_def Let_def parsed_request_def
      split: body_parse.splits option.splits)

text \<open>
  C3, as the code has it. In \<^verbatim>\<open>index.js\<close> and \<^verbatim>\<open>part_001\<close>, for a request with an
  \<^verbatim>\<open>Origin\<close> header the response carries \<^verbatim>\<open>Access-Control-Allow-Origin\<close> with exactly that
  origin, the allowed methods \<^verbatim>\<open>GET, POST, OPTIONS\<close> and the allowed headers
  \<^verbatim>\<open>Content-Type, Authorization, X-API-Key\<close> if and only if the body parses and the origin
  as sent, with no trimming, is a member of the allow-list; otherwise none of the three
  headers is written. In \<^verbatim>\<open>part_000\<close> the response carries
  \<^verbatim>\<open>Access-Control-Allow-Origin\<close> with exactly the origin as sent if and only if the body
  parses, the origin is not empty and either the origin with one trailing slash removed is a
  member of the allow-list or the process runs in development mode; the allowed methods
  \<^verbatim>\<open>GET,POST,OPTIONS\<close> and the allowed headers \<^verbatim>\<open>Content-Type,Authorization,X-API-Key\<close> are
  written only on the response to an OPTIONS request that parses and is accepted.
\<close>

theorem cors_decision:
  assumes "in_origin inc = Some origin"
  shows "fst (simple_app cfg inc h) =
           (case in_body inc of
              Parsed b \<Rightarrow>
                if origin \<in> set (ALLOWED_ORIGINS cfg)
                then [(''Access-Control-Allow-Origin'', origin),
                      (''Access-Control-Allow-Methods'', ''GET, POST, OPTIONS''),
                      (''Access-Control-Allow-Headers'', ''Content-Type, Authorization, X-API-Key'')]
                else []
            | Unparsable s err \<Rightarrow> [])
       \<and> map_of (fst (p0_app cfg rt inc h)) ''Access-Control-Allow-Origin'' =
           (if (\<exists>b. in_body inc = Parsed b) \<and> origin \<noteq> []
               \<and> (clean_origin origin \<in> set (ALLOWED_ORIGINS cfg) \<or> NODE_ENV cfg = Some ''development'')
            then Some origin else None)
       \<and> map_of (fst (p0_app cfg rt inc h)) ''Access-Control-Allow-Methods'' =
           (if (\<exists>b. in_body inc = Parsed b) \<and> in_method inc = ''OPTIONS''
               \<and> (origin = [] \<or> clean_origin origin \<in> set (ALLOWED_ORIGINS cfg)
                   \<or> NODE_ENV cfg = Some ''development'')
            then Some ''GET,POST,OPTIONS'' else None)
       \<and> map_of (fst (p0_app cfg rt inc h)) ''Access-Control-Allow-Headers'' =
           (if (\<exists>b. in_body inc = Parsed b) \<and> in_method inc = ''OPTIONS''
               \<and> (origin = [] \<or> clean_origin origin \<in> set (ALLOWED_ORIGINS cfg)
                   \<or> NODE_ENV cfg = Some ''development'')
            then Some ''Content-Type,Authorization,X-API-Key'' else None)"
proof -
  have a: "fst (simple_app cfg inc h) =
           (case in_body inc of
              Parsed b \<Rightarrow>
                if origin \<in> set (ALLOWED_ORIGINS cfg)
                then [(''Access-Control-Allow-Origin'', origin),
                      (''Access-Control-Allow-Methods'', ''GET, POST, OPTIONS''),
                      (''Access-Control-Allow-Headers'', ''Content-Type, Authorization, X-API-Key'')]
                else []
            | Unparsable s err \<Rightarrow> [])"
    using assms
    by (simp add: simple_app_headers cors_middleware_headers parsed_request_def
        split: body_parse.splits)
  show ?thesis
  proof (cases "in_body inc")
    case (Parsed b)
    then show ?thesis
      using a assms
      by (simp add: p0_app_headers origin_callback_accepts cors_package_headers_def
          parsed_request_def)
  next
    case (Unparsable s err)
    then show ?thesis
      using a by (simp add: p0_app_headers)
  qed
qed

theorem cors_decision_witness:
  "fst (simple_app (idx_config \<lparr>env_API_SECRET_KEY = None, env_ALLOWED_ORIGINS = None, env_NODE_ENV = None\<rparr>)
      \<lparr>in_method = ''GET'', in_origin = Some ''https://kenyaonabudgetsafaris.co.uk'',
       in_x_api_key = None, in_body = Parsed []\<rparr>
      (\<lambda>r. (\<lparr>status = 404, content = JUndefined\<rparr>, [])))
   = [(''Access-Control-Allow-Origin'', ''https://kenyaonabudgetsafaris.co.uk''),
      (''Access-Control-Allow-Methods'', ''GET, POST, OPTIONS''),
      (''Access-Control-Allow-Headers'', ''Content-Type, Authorization, X-API-Key'')]
   \<and> map_of (fst (p0_app \<lparr>API_SECRET_KEY = ''k'', ALLOWED_ORIGINS = [''http://localhost:3000''], NODE_ENV = None\<rparr>
       \<lparr>now = ''2024-05-01T10:00:00.000Z'', trace = []\<rparr>
       \<lparr>in_method = ''OPTIONS'', in_origin = Some ''http://localhost:3000/'',
        in_x_api_key = None, in_body = Parsed []\<rparr>
       (\<lambda>r. (\<lparr>status = 404, content = JUndefined\<rparr>, [])))) ''Access-Control-Allow-Origin''
     = Some ''http://localhost:3000/''
   \<and> map_of (fst (p0_app \<lparr>API_SECRET_KEY = ''k'', ALLOWED_ORIGINS = [''http://localhost:3000''], NODE_ENV = None\<rparr>
       \<lparr>now = ''2024-05-01T10:00:00.000Z'', trace = []\<rparr>
       \<lparr>in_method = ''OPTIONS'', in_origin = Some ''http://localhost:3000/'',
        in_x_api_key = None, in_body = Parsed []\<rparr>
       (\<lambda>r. (\<lparr>status = 404, content = JUndefined\<rparr>, [])))) ''Access-Control-Allow-Methods''
     = Some ''GET,POST,OPTIONS''"
  using cors_decision
    [where inc = "\<lparr>in_method = ''GET'', in_origin = Some ''https://kenyaonabudgetsafaris.co.uk'',
       in_x_api_key = None, in_body = Parsed []\<rparr>"
       and origin = "''https://kenyaonabudgetsafaris.co.uk''"
       and cfg = "idx_config \<lparr>env_API_SECRET_KEY = None, env_ALLOWED_ORIGINS = None, env_NODE_ENV = None\<rparr>"
       and h = "\<lambda>r. (\<lparr>status = 404, content = JUndefined\<rparr>, [])"]
    cors_decision
    [where inc = "\<lparr>in_method = ''OPTIONS'', in_origin = Some ''http://localhost:3000/'',
        in_x_api_key = None, in_body = Parsed []\<rparr>"
       and origin = "''http://localhost:3000/''"
       and cfg = "\<lparr>API_SECRET_KEY = ''k'', ALLOWED_ORIGINS = [''http://localhost:3000''], NODE_ENV = None\<rparr>"
       and rt = "\<lparr>now = ''2024-05-01T10:00:00.000Z'', trace = []\<rparr>"
       and h = "\<lambda>r. (\<lparr>status = 404, content = JUndefined\<rparr>, [])"]
  by (simp add: idx_config_def idx_ALLOWED_ORIGINS_def or_default_def split_comma_def clean_origin_def)

text \<open>C3 as stated fails in four ways. In \<^verbatim>\<open>index.js\<close>, with the default configuration, the
  origin \<^verbatim>\<open>https://kenyaonabudgetsafaris.co.uk/\<close> is a member of the allow-list after its
  trailing slash is trimmed and the response carries no CORS header; and a request from the
  listed origin whose body does not parse gets none either. In \<^verbatim>\<open>part_000\<close>, in
  development mode, an origin that is not listed is echoed; and a GET from a listed
  origin is echoed without the allowed methods.\<close>

theorem trailing_slash_counterexample:
  "clean_origin ''https://kenyaonabudgetsafaris.co.uk/''
     \<in> set (ALLOWED_ORIGINS (idx_config \<lparr>env_API_SECRET_KEY = None, env_ALLOWED_ORIGINS = None, env_NODE_ENV = None\<rparr>))
   \<and> fst (simple_app (idx_config \<lparr>env_API_SECRET_KEY = None, env_ALLOWED_ORIGINS = None, env_NODE_ENV = None\<rparr>)
      \<lparr>in_method = ''GET'', in_origin = Some ''https://kenyaonabudgetsafaris.co.uk/'',
       in_x_api_key = None, in_body = Parsed []\<rparr>
      (\<lambda>r. (\<lparr>status = 404, content = JUndefined\<rparr>, []))) = []
   \<and> fst (simple_app (idx_config \<lparr>env_API_SECRET_KEY = None, env_ALLOWED_ORIGINS = None, env_NODE_ENV = None\<rparr>)
      \<lparr>in_method = ''POST'', in_origin = Some ''https://kenyaonabudgetsafaris.co.uk'',
       in_x_api_key = None,
       in_body = Unparsable 400 \<lparr>message = ''Unexpected end of JSON input'', stack = [], code = None,
                                 response = None\<rparr>\<rparr>
      (\<lambda>r. (\<lparr>status = 404, content = JUndefined\<rparr>, []))) = []
   \<and> clean_origin ''https://evil.example''
     \<notin> set (ALLOWED_ORIGINS (p0_config \<lparr>env_API_SECRET_KEY = None, env_ALLOWED_ORIGINS = None,
                                          env_NODE_ENV = Some ''development''\<rparr>))
   \<and> map_of (fst (p0_app (p0_config \<lparr>env_API_SECRET_KEY = None, env_ALLOWED_ORIGINS = None,
                                       env_NODE_ENV = Some ''development''\<rparr>)
       \<lparr>now = ''2024-05-01T10:00:00.000Z'', trace = []\<rparr>
       \<lparr>in_method = ''GET'', in_origin = Some ''https://evil.example'',
        in_x_api_key = None, in_body = Parsed []\<rparr>
       (\<lambda>r. (\<lparr>status = 404, content = JUndefined\<rparr>, [])))) ''Access-Control-Allow-Origin''
     = Some ''https://evil.example''
   \<and> map_of (fst (p0_app (p0_config \<lparr>env_API_SECRET_KEY = None, env_ALLOWED_ORIGINS = None, env_NODE_ENV = None\<rparr>)
       \<lparr>now = ''2024-05-01T10:00:00.000Z'', trace = []\<rparr>
       \<lparr>in_method = ''GET'', in_origin = Some ''http://localhost:3000'',
        in_x_api_key = None, in_body = Parsed []\<rparr>
       (\<lambda>r. (\<lparr>status = 404, content = JUndefined\<rparr>, [])))) ''Access-Control-Allow-Origin''
     = Some ''http://localhost:3000''
   \<and> map_of (fst (p0_app (p0_config \<lparr>env_API_SECRET_KEY = None, env_ALLOWED_ORIGINS = None, env_NODE_ENV = None\<rparr>)
       \<lparr>now = ''2024-05-01T10:00:00.000Z'', trace = []\<rparr>
       \<lparr>in_method = ''GET'', in_origin = Some ''http://localhost:3000'',
        in_x_api_key = None, in_body = Parsed []\<rparr>
       (\<lambda>r. (\<lparr>status = 404, content = JUndefined\<rparr>, [])))) ''Access-Control-Allow-Methods''
     = None"
  by code_simp

text \<open>
  C6, as the code has it. In \<^verbatim>\<open>index.js\<close> and \<^verbatim>\<open>part_001\<close> a request that is not OPTIONS,
  whose body parses and whose origin is not in the allow-list is passed to the matched
  route with no CORS header written; the reply is the route's. In \<^verbatim>\<open>part_000\<close>, outside
  development mode, a request whose body parses and whose non-empty origin is not in the
  allow-list after one trailing slash is removed is answered by the error handler with
  status 500 and \<^verbatim>\<open>Internal Server Error\<close>; no route runs and the provider is not invoked.
  In development mode, or for an empty or a listed origin, the request is passed to the
  matched route. A request whose body does not parse reaches no route: Express answers it
  with the parser's status in \<^verbatim>\<open>index.js\<close> and \<^verbatim>\<open>part_001\<close>, the error handler with 500 in
  \<^verbatim>\<open>part_000\<close>.
\<close>

theorem origin_rejection:
  assumes "in_method inc \<noteq> ''OPTIONS''" and "in_origin inc = Some origin"
  shows "(\<forall>b. in_body inc = Parsed b \<and> origin \<notin> set (ALLOWED_ORIGINS cfg) \<longrightarrow>
            simple_app cfg inc h = ([], h (parsed_request inc b)))
       \<and> (\<forall>b. in_body inc = Parsed b \<and> origin \<noteq> []
            \<and> clean_origin origin \<notin> set (ALLOWED_ORIGINS cfg)
            \<and> NODE_ENV cfg \<noteq> Some ''development'' \<longrightarrow>
            p0_app cfg rt inc h =
              ([(''X-Server-Timestamp'', now rt)],
               \<lparr>status = 500,
                content = JObj [(''error'', JStr ''Internal Server Error''),
                                (''message'', JStr ''An unexpected error occurred''),
                                (''stack'', JUndefined),
                                (''timestamp'', JStr (now rt))]\<rparr>, []))
       \<and> (\<forall>b. in_body inc = Parsed b
            \<and> (NODE_ENV cfg = Some ''development'' \<or> origin = []
                \<or> clean_origin origin \<in> set (ALLOWED_ORIGINS cfg)) \<longrightarrow>
            snd (p0_app cfg rt inc h) = h (parsed_request inc b))
       \<and> (\<forall>s err. in_body inc = Unparsable s err \<longrightarrow>
            simple_app cfg inc h = ([], default_error_handler s, [])
            \<and> p0_app cfg rt inc h =
                ([(''X-Server-Timestamp'', now rt)], p0_error_handler cfg rt err, []))"
  using assms
  by (auto simp: simple_app_def cors_middleware_def Let_def p0_app_def p0_cors_def
      origin_callback_def header_def p0_error_handler_def parsed_request_def new_Error_def)

theorem origin_rejection_witness:
  "simple_app (idx_config \<lparr>env_API_SECRET_KEY = None, env_ALLOWED_ORIGINS = None, env_NODE_ENV = None\<rparr>)
      \<lparr>in_method = ''GET'', in_origin = Some ''https://evil.example'', in_x_api_key = None,
       in_body = Parsed []\<rparr>
      (\<lambda>r. (\<lparr>status = 404, content = JUndefined\<rparr>, []))
   = ([], \<lparr>status = 404, content = JUndefined\<rparr>, [])
   \<and> p0_app \<lparr>API_SECRET_KEY = ''k'', ALLOWED_ORIGINS = [''http://localhost:3000''], NODE_ENV = Some ''production''\<rparr>
      \<lparr>now = ''2024-05-01T10:00:00.000Z'', trace = []\<rparr>
      \<lparr>in_method = ''GET'', in_origin = Some ''https://evil.example'', in_x_api_key = None,
       in_body = Parsed []\<rparr>
      (\<lambda>r. (\<lparr>status = 404, content = JUndefined\<rparr>, []))
   = ([(''X-Server-Timestamp'', ''2024-05-01T10:00:00.000Z'')],
      \<lparr>status = 500,
       content = JObj [(''error'', JStr ''Internal Server Error''),
                       (''message'', JStr ''An unexpected error occurred''),
                       (''stack'', JUndefined),
                       (''timestamp'', JStr ''2024-05-01T10:00:00.000Z'')]\<rparr>, [])"
  using origin_rejection
    [where inc = "\<lparr>in_method = ''GET'', in_origin = Some ''https://evil.example'', in_x_api_key = None,
       in_body = Parsed []\<rparr>"
       and origin = "''https://evil.example''"
       and cfg = "idx_config \<lparr>env_API_SECRET_KEY = None, env_ALLOWED_ORIGINS = None, env_NODE_ENV = None\<rparr>"
       and h = "\<lambda>r. (\<lparr>status = 404, content = JUndefined\<rparr>, [])"]
    origin_rejection
    [where inc = "\<lparr>in_method = ''GET'', in_origin = Some ''https://evil.example'', in_x_api_key = None,
       in_body = Parsed []\<rparr>"
       and origin = "''https://evil.example''"
       and cfg = "\<lparr>API_SECRET_KEY = ''k'', ALLOWED_ORIGINS = [''http://localhost:3000''], NODE_ENV = Some ''production''\<rparr>"
       and rt = "\<lparr>now = ''2024-05-01T10:00:00.000Z'', trace = []\<rparr>"
       and h = "\<lambda>r. (\<lparr>status = 404, content = JUndefined\<rparr>, [])"]
  by (simp add: idx_config_def idx_ALLOWED_ORIGINS_def or_default_def split_comma_def clean_origin_def)

text \<open>C6 as stated fails in \<^verbatim>\<open>part_000\<close>: with the default configuration a valid send request
  from an origin that is not listed is answered with status 500 by the error handler,
  where the route alone would have sent the mail and replied 200. It also fails in
  \<^verbatim>\<open>index.js\<close> for a request from such an origin whose body does not parse: Express
  answers 400 and no route runs.\<close>

theorem origin_rejection_counterexample:
  "p0_app (p0_config \<lparr>env_API_SECRET_KEY = None, env_ALLOWED_ORIGINS = None, env_NODE_ENV = None\<rparr>)
      \<lparr>now = ''2024-05-01T10:00:00.000Z'', trace = []\<rparr>
      \<lparr>in_method = ''POST'', in_origin = Some ''https://evil.example'',
       in_x_api_key = Some ''thiswillbesecretkey45'',
       in_body = Parsed [(''to'', JStr ''a@x.com''), (''subject'', JStr ''Hi''), (''html'', JStr ''<p>hi</p>'')]\<rparr>
      (p0_route (p0_config \<lparr>env_API_SECRET_KEY = None, env_ALLOWED_ORIGINS = None, env_NODE_ENV = None\<rparr>)
         \<lparr>now = ''2024-05-01T10:00:00.000Z'', trace = []\<rparr> (\<lambda>r. Resolved JNull))
   = ([(''X-Server-Timestamp'', ''2024-05-01T10:00:00.000Z'')],
      \<lparr>status = 500,
       content = JObj [(''error'', JStr ''Internal Server Error''),
                       (''message'', JStr ''An unexpected error occurred''),
                       (''stack'', JUndefined),
                       (''timestamp'', JStr ''2024-05-01T10:00:00.000Z'')]\<rparr>, [])
   \<and> status (fst (p0_route (p0_config \<lparr>env_API_SECRET_KEY = None, env_ALLOWED_ORIGINS = None, env_NODE_ENV = None\<rparr>)
         \<lparr>now = ''2024-05-01T10:00:00.000Z'', trace = []\<rparr> (\<lambda>r. Resolved JNull)
         \<lparr>req_method = ''POST'', hdr_origin = Some ''https://evil.example'',
          hdr_x_api_key = Some ''thiswillbesecretkey45'',
          req_body = [(''to'', JStr ''a@x.com''), (''subject'', JStr ''Hi''), (''html'', JStr ''<p>hi</p>'')]\<rparr>)) = 200
   \<and> simple_app (idx_config \<lparr>env_API_SECRET_KEY = None, env_ALLOWED_ORIGINS = None, env_NODE_ENV = None\<rparr>)
      \<lparr>in_method = ''POST'', in_origin = Some ''https://evil.example'',
       in_x_api_key = Some ''your-secret-key-here'',
       in_body = Unparsable 400 \<lparr>message = ''Unexpected end of JSON input'', stack = [], code = None,
                                 response = None\<rparr>\<rparr>
      (idx_route (idx_config \<lparr>env_API_SECRET_KEY = None, env_ALLOWED_ORIGINS = None, env_NODE_ENV = None\<rparr>)
         \<lparr>now = ''2024-05-01T10:00:00.000Z'', trace = []\<rparr> (\<lambda>r. Resolved JNull))
   = ([], \<lparr>status = 400, content = JUndefined\<rparr>, [])"
  by code_simp

section \<open>Properties of the allow-list\<close>

lemma indexOf_absent: "v \<notin> set xs \<Longrightarrow> indexOf xs v = - 1"
  by (induction xs) (auto simp: Let_def)

lemma indexOf_present:
  "v \<in> set xs \<Longrightarrow> 0 \<le> indexOf xs v \<and> nat (indexOf xs v) < length xs \<and> xs ! nat (indexOf xs v) = v"
proof (induction xs)
  case Nil
  then show ?case by simp
next
  case (Cons x xs)
  show ?case
  proof (cases "x = v")
    case True
    then show ?thesis by simp
  next
    case False
    with Cons.prems have "v \<in> set xs" by simp
    from Cons.IH [OF this] False show ?thesis
      by (simp add: Let_def nat_add_distrib)
  qed
qed

lemma set_remove_duplicates: "set (remove_duplicates xs) = set xs"
proof
  show "set (remove_duplicates xs) \<subseteq> set xs"
    by (auto simp: remove_duplicates_def in_set_enumerate_eq)
next
  show "set xs \<subseteq> set (remove_duplicates xs)"
  proof
    fix v assume "v \<in> set xs"
    from indexOf_present [OF this]
    have "(nat (indexOf xs v), v) \<in> set (enumerate 0 xs)" and "indexOf xs v = int (nat (indexOf xs v))"
      by (auto simp: in_set_enumerate_eq)
    then show "v \<in> set (remove_duplicates xs)"
      by (force simp: remove_duplicates_def)
  qed
qed

lemma distinct_remove_duplicates: "distinct (remove_duplicates xs)"
  unfolding remove_duplicates_def
  by (auto simp: distinct_map inj_on_def)

lemma last_dropWhile_nonempty: "dropWhile P xs \<noteq> [] \<Longrightarrow> last (dropWhile P xs) = last xs"
  by (metis last_appendR takeWhile_dropWhile_id)

lemma js_trim_edges:
  assumes "js_trim s \<noteq> []"
  shows "\<not> is_space (hd (js_trim s)) \<and> \<not> is_space (last (js_trim s))"
proof -
  let ?t = "dropWhile is_space s"
  let ?u = "dropWhile is_space (rev ?t)"
  from assms have u: "?u \<noteq> []" by (simp add: js_trim_def)
  have t: "?t \<noteq> []"
  proof
    assume "?t = []"
    then have "?u = []" by (simp del: dropWhile_eq_Nil_conv)
    with u show False by simp
  qed
  have "last (js_trim s) = hd ?u" using u by (simp add: js_trim_def last_rev)
  moreover have "\<not> is_space (hd ?u)" using u by (rule hd_dropWhile)
  moreover have "hd (js_trim s) = last ?u" using u by (simp add: js_trim_def hd_rev)
  moreover have "last ?u = last (rev ?t)" using u by (rule last_dropWhile_nonempty)
  moreover have "last (rev ?t) = hd ?t" using t by (simp add: last_rev)
  moreover have "\<not> is_space (hd ?t)" using t by (rule hd_dropWhile)
  ultimately show ?thesis by simp
qed

lemma split_acc_nonempty: "split_acc cur s \<noteq> []"
  by (induction s arbitrary: cur) auto

lemma split_acc_join: "join_comma (split_acc cur s) = rev cur @ s"
proof (induction s arbitrary: cur)
  case Nil
  then show ?case by simp
next
  case (Cons c cs)
  show ?case
  proof (cases "c = CHR '',''")
    case True
    obtain p ps where "split_acc [] cs = p # ps"
      using split_acc_nonempty [of "[]" cs] by (cases "split_acc [] cs") auto
    with Cons.IH [of "[]"] True show ?thesis by simp
  next
    case False
    with Cons.IH [of "c # cur"] show ?thesis by simp
  qed
qed

lemma join_split_comma: "join_comma (split_comma s) = s"
  by (simp add: split_comma_def split_acc_join)

lemma split_acc_no_comma:
  "CHR '','' \<notin> set cur \<Longrightarrow> \<forall>p \<in> set (split_acc cur s). CHR '','' \<notin> set p"
proof (induction s arbitrary: cur)
  case Nil
  then show ?case by simp
next
  case (Cons c cs)
  show ?case
  proof (cases "c = CHR '',''")
    case True
    from Cons.IH [of "[]"] have "\<forall>p \<in> set (split_acc [] cs). CHR '','' \<notin> set p" by simp
    with True Cons.prems show ?thesis by simp
  next
    case False
    with Cons.prems have "CHR '','' \<notin> set (c # cur)" by simp
    from Cons.IH [OF this] False show ?thesis by simp
  qed
qed

lemma split_comma_no_comma: "p \<in> set (split_comma s) \<Longrightarrow> CHR '','' \<notin> set p"
  using split_acc_no_comma [of "[]" s] by (simp add: split_comma_def)

text \<open>
  C9, as the code has it. In \<^verbatim>\<open>part_000\<close> the allow-list is the fixed base list merged with
  the comma-separated values of the environment variable, each trimmed of surrounding white
  space (trailing slashes are kept), empty values dropped and duplicates removed; membership
  is equality with one of its elements. In \<^verbatim>\<open>index.js\<close> and \<^verbatim>\<open>part_001\<close> the allow-list is
  the environment variable split at commas, or the one built-in origin when the variable is
  unset or empty, with no trimming and no removal of duplicates: its pieces hold no comma
  and, joined with commas, give the variable back character by character.
\<close>

theorem allowed_origins_built:
  "set (p0_ALLOWED_ORIGINS env) =
     set base_origins \<union>
     {js_trim v |v. v \<in> set (split_comma (or_default (env_ALLOWED_ORIGINS env) [])) \<and> js_trim v \<noteq> []}
   \<and> distinct (p0_ALLOWED_ORIGINS env)
   \<and> (\<forall>origin \<in> set (allowedOriginsFromEnv env).
         origin \<noteq> [] \<and> \<not> is_space (hd origin) \<and> \<not> is_space (last origin))
   \<and> join_comma (idx_ALLOWED_ORIGINS env) =
       or_default (env_ALLOWED_ORIGINS env) ''https://kenyaonabudgetsafaris.co.uk''
   \<and> (\<forall>origin \<in> set (idx_ALLOWED_ORIGINS env). CHR '','' \<notin> set origin)"
proof -
  have a: "set (allowedOriginsFromEnv env) =
      {js_trim v |v. v \<in> set (split_comma (or_default (env_ALLOWED_ORIGINS env) [])) \<and> js_trim v \<noteq> []}"
    by (auto simp: allowedOriginsFromEnv_def)
  have b: "\<forall>origin \<in> set (allowedOriginsFromEnv env).
         origin \<noteq> [] \<and> \<not> is_space (hd origin) \<and> \<not> is_space (last origin)"
    unfolding a using js_trim_edges by auto
  have c: "join_comma (idx_ALLOWED_ORIGINS env) =
       or_default (env_ALLOWED_ORIGINS env) ''https://kenyaonabudgetsafaris.co.uk''"
    by (simp add: idx_ALLOWED_ORIGINS_def join_split_comma)
  have d: "\<forall>origin \<in> set (idx_ALLOWED_ORIGINS env). CHR '','' \<notin> set origin"
    by (simp add: idx_ALLOWED_ORIGINS_def split_comma_no_comma)
  have "set (p0_ALLOWED_ORIGINS env) = set base_origins \<union> set (allowedOriginsFromEnv env)"
    by (simp add: p0_ALLOWED_ORIGINS_def set_remove_duplicates)
  with a b c d show ?thesis
    by (simp add: p0_ALLOWED_ORIGINS_def distinct_remove_duplicates)
qed

theorem allowed_origins_built_witness:
  "p0_ALLOWED_ORIGINS \<lparr>env_API_SECRET_KEY = None,
       env_ALLOWED_ORIGINS = Some '' https://a.example ,,http://localhost:3000,https://a.example'',
       env_NODE_ENV = None\<rparr>
   = [''https://kenyaonabudgetsafaris.co.uk'', ''https://www.kenyaonabudgetsafaris.co.uk'',
      ''http://127.0.0.1:5500'', ''http://localhost:5500'', ''http://localhost:3000'',
      ''https://a.example'']
   \<and> distinct (p0_ALLOWED_ORIGINS \<lparr>env_API_SECRET_KEY = None,
       env_ALLOWED_ORIGINS = Some '' https://a.example ,,http://localhost:3000,https://a.example'',
       env_NODE_ENV = None\<rparr>)"
proof -
  have "p0_ALLOWED_ORIGINS \<lparr>env_API_SECRET_KEY = None,
       env_ALLOWED_ORIGINS = Some '' https://a.example ,,http://localhost:3000,https://a.example'',
       env_NODE_ENV = None\<rparr>
   = [''https://kenyaonabudgetsafaris.co.uk'', ''https://www.kenyaonabudgetsafaris.co.uk'',
      ''http://127.0.0.1:5500'', ''http://localhost:5500'', ''http://localhost:3000'',
      ''https://a.example'']"
    by code_simp
  with allowed_origins_built
    [where env = "\<lparr>env_API_SECRET_KEY = None,
       env_ALLOWED_ORIGINS = Some '' https://a.example ,,http://localhost:3000,https://a.example'',
       env_NODE_ENV = None\<rparr>"]
  show ?thesis by blast
qed

text \<open>C9 as stated fails in \<^verbatim>\<open>part_000\<close>: a configured value with a trailing slash stays in
  the allow-list with its slash, and the value without the slash is not a member. In
  \<^verbatim>\<open>index.js\<close> neither white space nor duplicates are removed.\<close>

theorem slash_kept_counterexample:
  "''https://a.example/'' \<in> set (p0_ALLOWED_ORIGINS \<lparr>env_API_SECRET_KEY = None,
       env_ALLOWED_ORIGINS = Some '' https://a.example/ '', env_NODE_ENV = None\<rparr>)
   \<and> ''https://a.example'' \<notin> set (p0_ALLOWED_ORIGINS \<lparr>env_API_SECRET_KEY = None,
       env_ALLOWED_ORIGINS = Some '' https://a.example/ '', env_NODE_ENV = None\<rparr>)
   \<and> idx_ALLOWED_ORIGINS \<lparr>env_API_SECRET_KEY = None,
       env_ALLOWED_ORIGINS = Some ''https://a.example/, https://a.example/'', env_NODE_ENV = None\<rparr>
     = [''https://a.example/'', '' https://a.example/'']"
  by code_simp

end
